theory Spec2Isabelle
  imports Complex_Main "HOL-Library.Sublist"
begin

section \<open>Deep Survival Machines: the training utilities of dsm/utilities.py\<close>

subsection \<open>Floating point values\<close>

text \<open>
  A Python/NumPy/Torch float is a finite number, one of the two infinities or
  not-a-number. A finite double is represented by the real number it denotes;
  comparisons are then exact, as they are on doubles. An arithmetic operation gives
  the exact result rounded to binary64: to the nearest double, a tie to the one with
  an even significand, and to an infinity from \<open>2^1024 - 2^970\<close> on.
\<close>

datatype pyfloat = Fin real | PInf | NInf | NaN

text \<open>
  The exponent of the binade of \<open>x\<close>: the greatest \<open>e\<close> from -1022 to 1023 with
  \<open>2^e <= |x|\<close>, and -1022 (the subnormal numbers) when there is none.
\<close>

definition binary64_exponent :: "real \<Rightarrow> int" where
  "binary64_exponent x =
     (case find (\<lambda>e. 2 powi e \<le> \<bar>x\<bar>) (rev [- 1022..1023]) of
        Some e \<Rightarrow> e
      | None \<Rightarrow> - 1022)"

definition round_half_even :: "real \<Rightarrow> int" where
  "round_half_even x =
     (let f = \<lfloor>x\<rfloor>
      in if x - of_int f < 1 / 2 then f
         else if 1 / 2 < x - of_int f then f + 1
         else if even f then f else f + 1)"

text \<open>Rounding to binary64: a significand of 53 bits in units of \<open>2^(e - 52)\<close>.\<close>

definition round_binary64 :: "real \<Rightarrow> pyfloat" where
  "round_binary64 x =
     (if x = 0 then Fin 0
      else
        (let ulp = 2 powi (binary64_exponent x - 52);
             y = of_int (round_half_even (\<bar>x\<bar> / ulp)) * ulp
         in if 2 ^ 1024 \<le> y then (if x < 0 then NInf else PInf)
            else Fin (if x < 0 then - y else y)))"

fun isnan :: "pyfloat \<Rightarrow> bool" where
  "isnan NaN = True"
| "isnan _ = False"

text \<open>\<open>a >= b\<close>: false as soon as one side is not-a-number.\<close>

fun fl_ge :: "pyfloat \<Rightarrow> pyfloat \<Rightarrow> bool" where
  "fl_ge NaN _ = False"
| "fl_ge _ NaN = False"
| "fl_ge PInf _ = True"
| "fl_ge _ NInf = True"
| "fl_ge (Fin x) (Fin y) = (y \<le> x)"
| "fl_ge (Fin x) PInf = False"
| "fl_ge NInf _ = False"

text \<open>\<open>a < b\<close>\<close>

fun fl_lt :: "pyfloat \<Rightarrow> pyfloat \<Rightarrow> bool" where
  "fl_lt NaN _ = False"
| "fl_lt _ NaN = False"
| "fl_lt _ NInf = False"
| "fl_lt PInf _ = False"
| "fl_lt NInf _ = True"
| "fl_lt (Fin x) (Fin y) = (x < y)"
| "fl_lt (Fin x) PInf = True"

text \<open>\<open>a - b\<close> on float64\<close>

fun fl_sub :: "pyfloat \<Rightarrow> pyfloat \<Rightarrow> pyfloat" where
  "fl_sub NaN _ = NaN"
| "fl_sub _ NaN = NaN"
| "fl_sub PInf PInf = NaN"
| "fl_sub NInf NInf = NaN"
| "fl_sub PInf _ = PInf"
| "fl_sub NInf _ = NInf"
| "fl_sub (Fin x) PInf = NInf"
| "fl_sub (Fin x) NInf = PInf"
| "fl_sub (Fin x) (Fin y) = round_binary64 (x - y)"

text \<open>\<open>np.abs\<close>\<close>

fun fl_abs :: "pyfloat \<Rightarrow> pyfloat" where
  "fl_abs (Fin x) = Fin \<bar>x\<bar>"
| "fl_abs PInf = PInf"
| "fl_abs NInf = PInf"
| "fl_abs NaN = NaN"

subsection \<open>Errors\<close>

text \<open>The exceptions the code of this file can raise, with their messages.\<close>

datatype error =
    NotImplementedError string
  | ValueError string
  | ZeroDivisionError string
  | IndexError string
  | UnboundLocalError string

subsection \<open>Padding of variable length sequences\<close>

text \<open>
  A two-dimensional array: its rows, and the number of columns (\<open>shape[1]\<close>), which
  an array without rows still has. \<open>len\<close> of the array is the number of rows.
\<close>

record ndarray2 =
  rows :: "pyfloat list list"
  ncols :: nat

text \<open>The builtin \<open>max\<close> on a list of lengths: it raises on the empty list.\<close>

fun py_max :: "nat list \<Rightarrow> error + nat" where
  "py_max [] = Inl (ValueError ''max() arg is an empty sequence'')"
| "py_max (n # ns) = Inr (fold max ns n)"

text \<open>
  \<open>np.array\<close> on a list of two-dimensional arrays that all have \<open>d\<close> rows: the
  arrays are stacked when their numbers of columns agree, and the call raises when
  they do not. The stacked array is given by its slices along the first axis.
\<close>

definition np_array :: "ndarray2 list \<Rightarrow> error + ndarray2 list" where
  "np_array padx =
     (case padx of
        [] \<Rightarrow> Inr []
      | a # as \<Rightarrow>
          if list_all (\<lambda>b. ncols b = ncols a) as then Inr padx
          else Inl (ValueError ''setting an array element with a sequence.''))"

text \<open>
  \<^verbatim>\<open>
  def _get_padded_features(x):
    d = max([len(x_) for x_ in x])
    padx = []
    for i in range(len(x)):
      pads = np.nan*np.ones((d - len(x[i]), x[i].shape[1]))
      padx.append(np.concatenate([x[i], pads]))
    return np.array(padx)
  \<close>
\<close>

definition pad_feature :: "nat \<Rightarrow> ndarray2 \<Rightarrow> ndarray2" where
  "pad_feature d xi =
     (let pads = replicate (d - length (rows xi)) (replicate (ncols xi) NaN)
      in \<lparr>rows = rows xi @ pads, ncols = ncols xi\<rparr>)"

definition get_padded_features :: "ndarray2 list \<Rightarrow> error + ndarray2 list" where
  "get_padded_features x =
     (case py_max (map (\<lambda>xi. length (rows xi)) x) of
        Inl e \<Rightarrow> Inl e
      | Inr d \<Rightarrow> np_array (map (pad_feature d) x))"

text \<open>
  \<^verbatim>\<open>
  def _get_padded_targets(t):
    d = max([len(t_) for t_ in t])
    padt = []
    for i in range(len(t)):
      pads = np.nan*np.ones(d - len(t[i]))
      padt.append(np.concatenate([t[i], pads]))
    return np.array(padt)[:, :, np.newaxis]
  \<close>
  The result has shape \<open>[n, d, 1]\<close>: every entry sits in a list of its own.
\<close>

definition pad_target :: "nat \<Rightarrow> pyfloat list \<Rightarrow> pyfloat list" where
  "pad_target d ti = ti @ replicate (d - length ti) NaN"

definition get_padded_targets :: "pyfloat list list \<Rightarrow> error + pyfloat list list list" where
  "get_padded_targets t =
     (case py_max (map length t) of
        Inl e \<Rightarrow> Inl e
      | Inr d \<Rightarrow> Inr (map (\<lambda>ti. map (\<lambda>v. [v]) (pad_target d ti)) t))"

text \<open>
  \<^verbatim>\<open>
  def _reshape_tensor_with_nans(data):
    data = data.reshape(-1)
    return data[~torch.isnan(data)]
  \<close>
  on a tensor with three axes: \<open>reshape(-1)\<close> lists the entries in row-major order.
\<close>

definition reshape_tensor_with_nans :: "pyfloat list list list \<Rightarrow> pyfloat list" where
  "reshape_tensor_with_nans data = filter (\<lambda>v. \<not> isnan v) (concat (concat data))"

subsection \<open>The model, the heap and the collaborators\<close>

text \<open>
  The model is an object of \<open>DeepSurvivalMachinesTorch\<close> (dsm/dsm_torch.py). This file
  reads its attributes \<open>dist\<close> and \<open>optimizer\<close>, reads and fills its parameters
  \<open>shape\<close> and \<open>scale\<close> (tensors, given by their entries), and hands everything else
  (\<open>net\<close>: the remaining parameters and buffers) to the loss functions and the optimizer.
\<close>

record 'p model =
  dist_tag :: string
  optimizer_tag :: string
  shape :: "pyfloat list"
  scale :: "pyfloat list"
  net :: 'p

text \<open>
  Models are mutable objects: they live in a heap, a list of objects, and a reference
  is an index into it. A new object is appended.
\<close>

type_synonym 'p heap = "'p model list"

text \<open>\<open>model.state_dict()\<close> (copied) and \<open>model.load_state_dict(d)\<close>: the parameters.\<close>

type_synonym 'p state_dict_t = "pyfloat list \<times> pyfloat list \<times> 'p"

definition state_dict :: "'p model \<Rightarrow> 'p state_dict_t" where
  "state_dict m = (shape m, scale m, net m)"

definition load_state_dict :: "'p model \<Rightarrow> 'p state_dict_t \<Rightarrow> 'p model" where
  "load_state_dict m d = m\<lparr>shape := fst d, scale := fst (snd d), net := snd (snd d)\<rparr>"

text \<open>
  An optimizer of \<open>torch.optim\<close>: its kind, its learning rate, the model whose
  parameters it is bound to, and its internal state (step counts, moment estimates).
\<close>

datatype opt_kind = Adam | SGD | RMSprop

record 'o optim =
  okind :: opt_kind
  lr :: pyfloat
  target :: nat
  ostate :: 'o

text \<open>
  The collaborators, which this file calls and does not define:
  the constructor \<open>DeepSurvivalMachinesTorch(inputdim, k, dist=...)\<close>, the conversion
  \<open>.double()\<close>, the internal state of a new optimizer, the two losses of dsm/losses.py,
  and an optimisation step on a loss,
  \<^verbatim>\<open>optimizer.zero_grad(); loss = ...loss(model, ...); loss.backward(); optimizer.step()\<close>
  which gives the optimizer's new internal state and the model's new value from the
  optimizer's kind, learning rate and state, the model and the data: the optimizer is
  bound to the parameters of the model that the loss is computed from, so a step
  writes that one object.
  A call of a collaborator is taken to return.
\<close>

record ('p, 'o, 'x) collab =
  DeepSurvivalMachinesTorch :: "nat \<Rightarrow> nat \<Rightarrow> string \<Rightarrow> 'p model"
  double :: "'p model \<Rightarrow> 'p model"
  new_state :: 'o
  unconditional_loss :: "'p model \<Rightarrow> pyfloat list \<Rightarrow> pyfloat list \<Rightarrow> pyfloat"
  unconditional_step ::
    "opt_kind \<Rightarrow> pyfloat \<Rightarrow> 'o \<Rightarrow> 'p model \<Rightarrow> pyfloat list \<Rightarrow> pyfloat list \<Rightarrow> 'o \<times> 'p model"
  conditional_loss ::
    "'p model \<Rightarrow> 'x list \<Rightarrow> pyfloat list \<Rightarrow> pyfloat list \<Rightarrow> bool \<Rightarrow> pyfloat"
  conditional_step ::
    "opt_kind \<Rightarrow> pyfloat \<Rightarrow> 'o \<Rightarrow> 'p model \<Rightarrow> 'x list \<Rightarrow> pyfloat list \<Rightarrow> pyfloat list \<Rightarrow> bool
       \<Rightarrow> 'o \<times> 'p model"

subsection \<open>The optimizer factory\<close>

text \<open>
  \<^verbatim>\<open>
  def get_optimizer(model, lr):
    if model.optimizer == 'Adam':
      return torch.optim.Adam(model.parameters(), lr=lr)
    elif model.optimizer == 'SGD':
      return torch.optim.SGD(model.parameters(), lr=lr)
    elif model.optimizer == 'RMSProp':
      return torch.optim.RMSprop(model.parameters(), lr=lr)
    else:
      raise NotImplementedError('Optimizer '+model.optimizer+
                                ' is not implemented')
  \<close>
\<close>

definition torch_optim :: "('p, 'o, 'x) collab \<Rightarrow> opt_kind \<Rightarrow> nat \<Rightarrow> pyfloat \<Rightarrow> 'o optim" where
  "torch_optim C k model l = \<lparr>okind = k, lr = l, target = model, ostate = new_state C\<rparr>"

definition get_optimizer ::
  "('p, 'o, 'x) collab \<Rightarrow> 'p heap \<Rightarrow> nat \<Rightarrow> pyfloat \<Rightarrow> error + 'o optim" where
  "get_optimizer C h model l =
     (if optimizer_tag (h ! model) = ''Adam'' then Inr (torch_optim C Adam model l)
      else if optimizer_tag (h ! model) = ''SGD'' then Inr (torch_optim C SGD model l)
      else if optimizer_tag (h ! model) = ''RMSProp'' then Inr (torch_optim C RMSprop model l)
      else Inl (NotImplementedError
                  (''Optimizer '' @ optimizer_tag (h ! model) @ '' is not implemented'')))"

subsection \<open>Loops and their local variables\<close>

text \<open>
  A loop body either goes on with the next iteration or leaves the loop
  (\<open>break\<close> in \<open>pretrain_dsm\<close>, \<open>return\<close> in \<open>train_dsm\<close>).
\<close>

datatype 'a ctl = Next 'a | Leave 'a

text \<open>
  The local variables that both training loops update, with the heap; \<open>train_dsm\<close>
  has two more: the snapshots \<open>dics\<close>, which \<open>del dics\<close> unbinds (\<open>None\<close>), and the
  epoch index \<open>i\<close>.
\<close>

record ('p, 'o) frame =
  heap :: "'p heap"
  optimizer :: "'o optim"
  oldcost :: pyfloat
  patience :: nat
  costs :: "pyfloat list"

record ('p, 'o) train_frame = "('p, 'o) frame" +
  dics :: "'p state_dict_t list option"
  epoch :: nat

subsection \<open>Pretraining\<close>

text \<open>
  \<^verbatim>\<open>
    optimizer.zero_grad()
    loss = unconditional_loss(premodel, t_train, e_train)
    loss.backward()
    optimizer.step()

    valid_loss = unconditional_loss(premodel, t_valid, e_valid)
    valid_loss = valid_loss.detach().cpu().numpy()
    costs.append(valid_loss)

    if np.abs(costs[-1] - oldcost) < thres:
      patience += 1
      if patience == 3:
        break
    oldcost = costs[-1]
  \<close>
\<close>

definition pretrain_iter ::
  "('p, 'o, 'x) collab \<Rightarrow> nat \<Rightarrow> pyfloat list \<Rightarrow> pyfloat list \<Rightarrow> pyfloat list \<Rightarrow> pyfloat list
     \<Rightarrow> pyfloat \<Rightarrow> ('p, 'o) frame \<Rightarrow> ('p, 'o) frame ctl" where
  "pretrain_iter C premodel t_train e_train t_valid e_valid thres fr =
     (let opt = optimizer fr;
          sm = unconditional_step C (okind opt) (lr opt) (ostate opt) (heap fr ! premodel)
                 t_train e_train;
          h = (heap fr)[premodel := snd sm];
          valid_loss = unconditional_loss C (h ! premodel) t_valid e_valid;
          cs = costs fr @ [valid_loss];
          fr1 = fr\<lparr>heap := h, optimizer := opt\<lparr>ostate := fst sm\<rparr>, costs := cs\<rparr>
      in if fl_lt (fl_abs (fl_sub (last cs) (oldcost fr))) thres
         then (if patience fr + 1 = 3 then Leave (fr1\<lparr>patience := patience fr + 1\<rparr>)
               else Next (fr1\<lparr>patience := patience fr + 1, oldcost := last cs\<rparr>))
         else Next (fr1\<lparr>oldcost := last cs\<rparr>))"

text \<open>\<open>for _ in tqdm(range(n_iter))\<close>, by the number of iterations that are left.\<close>

fun pretrain_loop ::
  "('p, 'o, 'x) collab \<Rightarrow> nat \<Rightarrow> pyfloat list \<Rightarrow> pyfloat list \<Rightarrow> pyfloat list \<Rightarrow> pyfloat list
     \<Rightarrow> pyfloat \<Rightarrow> nat \<Rightarrow> ('p, 'o) frame \<Rightarrow> ('p, 'o) frame" where
  "pretrain_loop C premodel t_train e_train t_valid e_valid thres 0 fr = fr"
| "pretrain_loop C premodel t_train e_train t_valid e_valid thres (Suc n) fr =
     (case pretrain_iter C premodel t_train e_train t_valid e_valid thres fr of
        Leave fr' \<Rightarrow> fr'
      | Next fr' \<Rightarrow> pretrain_loop C premodel t_train e_train t_valid e_valid thres n fr')"

text \<open>
  \<^verbatim>\<open>
  def pretrain_dsm(model, t_train, e_train, t_valid, e_valid,
                   n_iter=10000, lr=1e-2, thres=1e-4):
    premodel = DeepSurvivalMachinesTorch(1, 1, dist=model.dist)
    premodel.double()
    optimizer = torch.optim.Adam(premodel.parameters(), lr=lr)
    oldcost = float('inf')
    patience = 0
    costs = []
    for _ in tqdm(range(n_iter)):
      ...
    return premodel
  \<close>
  \<open>pretrain_dsm_frame\<close> gives the local variables and the heap when the loop is left,
  \<open>pretrain_dsm\<close> the heap and the reference that is returned.
\<close>

definition pretrain_dsm_frame ::
  "('p, 'o, 'x) collab \<Rightarrow> 'p heap \<Rightarrow> nat \<Rightarrow> pyfloat list \<Rightarrow> pyfloat list \<Rightarrow> pyfloat list
     \<Rightarrow> pyfloat list \<Rightarrow> int \<Rightarrow> pyfloat \<Rightarrow> pyfloat \<Rightarrow> ('p, 'o) frame" where
  "pretrain_dsm_frame C h model t_train e_train t_valid e_valid n_iter l thres =
     (let premodel = length h;
          h1 = h @ [DeepSurvivalMachinesTorch C 1 1 (dist_tag (h ! model))];
          h2 = h1[premodel := double C (h1 ! premodel)];
          opt = torch_optim C Adam premodel l
      in pretrain_loop C premodel t_train e_train t_valid e_valid thres (nat n_iter)
           \<lparr>heap = h2, optimizer = opt, oldcost = PInf, patience = 0, costs = []\<rparr>)"

definition pretrain_dsm ::
  "('p, 'o, 'x) collab \<Rightarrow> 'p heap \<Rightarrow> nat \<Rightarrow> pyfloat list \<Rightarrow> pyfloat list \<Rightarrow> pyfloat list
     \<Rightarrow> pyfloat list \<Rightarrow> int \<Rightarrow> pyfloat \<Rightarrow> pyfloat \<Rightarrow> 'p heap \<times> nat" where
  "pretrain_dsm C h model t_train e_train t_valid e_valid n_iter l thres =
     (heap (pretrain_dsm_frame C h model t_train e_train t_valid e_valid n_iter l thres),
      length h)"

subsection \<open>Training\<close>

text \<open>
  A slice \<open>xs[a:b]\<close> along the first axis: a negative bound counts from the end, and
  both bounds are clipped to the length.
\<close>

definition py_slice :: "'a list \<Rightarrow> int \<Rightarrow> int \<Rightarrow> 'a list" where
  "py_slice xs a b =
     (let n = int (length xs);
          lo = (if a < 0 then max (a + n) 0 else min a n);
          hi = (if b < 0 then max (b + n) 0 else min b n)
      in take (nat (hi - lo)) (drop (nat lo) xs))"

text \<open>
  \<open>int(n / bs)\<close> for a length \<open>n\<close>: the quotient, truncated towards zero; the division
  raises when \<open>bs\<close> is zero. (The quotient is taken as exact.)
\<close>

definition int_quotient :: "nat \<Rightarrow> int \<Rightarrow> error + int" where
  "int_quotient n b =
     (if b = 0 then Inl (ZeroDivisionError ''division by zero'')
      else if 0 < b then Inr (int n div b)
      else Inr (- (int n div (- b))))"

text \<open>
  \<open>float(tensor)\<close> raises unless the tensor has one entry;
  \<open>tensor.data.fill_(v)\<close> sets every entry to \<open>v\<close>.
\<close>

definition py_float :: "pyfloat list \<Rightarrow> error + pyfloat" where
  "py_float t =
     (case t of
        [v] \<Rightarrow> Inr v
      | _ \<Rightarrow> Inl (ValueError ''only one element tensors can be converted to Python scalars''))"

definition fill :: "pyfloat list \<Rightarrow> pyfloat \<Rightarrow> pyfloat list" where
  "fill t v = map (\<lambda>_. v) t"

text \<open>
  \<open>np.argmax\<close>: the first index of the greatest entry; not-a-number counts as the
  greatest, so the first not-a-number ends the scan. It raises on an empty list.
\<close>

fun argmax_scan :: "pyfloat list \<Rightarrow> nat \<Rightarrow> nat \<Rightarrow> pyfloat \<Rightarrow> nat" where
  "argmax_scan [] j best mp = best"
| "argmax_scan (c # cs) j best mp =
     (if isnan mp then best
      else if isnan c \<or> fl_lt mp c then argmax_scan cs (j + 1) j c
      else argmax_scan cs (j + 1) best mp)"

fun np_argmax :: "pyfloat list \<Rightarrow> error + nat" where
  "np_argmax [] = Inl (ValueError ''attempt to get argmax of an empty sequence'')"
| "np_argmax (c # cs) = Inr (argmax_scan cs 1 0 c)"

text \<open>
  \<^verbatim>\<open>
      xb = x_train[j*bs:(j+1)*bs]
      tb = t_train[j*bs:(j+1)*bs]
      eb = e_train[j*bs:(j+1)*bs]

      optimizer.zero_grad()
      loss = conditional_loss(model,
                              xb,
                              _reshape_tensor_with_nans(tb),
                              _reshape_tensor_with_nans(eb),
                              elbo=elbo)
      loss.backward()
      optimizer.step()
  \<close>
\<close>

definition train_batch ::
  "('p, 'o, 'x) collab \<Rightarrow> nat \<Rightarrow> 'x list \<Rightarrow> pyfloat list list list \<Rightarrow> pyfloat list list list
     \<Rightarrow> bool \<Rightarrow> int \<Rightarrow> nat \<Rightarrow> ('p, 'o) train_frame \<Rightarrow> ('p, 'o) train_frame" where
  "train_batch C model x_train t_train e_train elbo bs j fr =
     (let xb = py_slice x_train (int j * bs) ((int j + 1) * bs);
          tb = py_slice t_train (int j * bs) ((int j + 1) * bs);
          eb = py_slice e_train (int j * bs) ((int j + 1) * bs);
          opt = optimizer fr;
          sm = conditional_step C (okind opt) (lr opt) (ostate opt) (heap fr ! model) xb
                 (reshape_tensor_with_nans tb) (reshape_tensor_with_nans eb) elbo
      in fr\<lparr>heap := (heap fr)[model := snd sm], optimizer := opt\<lparr>ostate := fst sm\<rparr>\<rparr>)"

text \<open>
  One epoch, \<open>i\<close> being its index:
  \<^verbatim>\<open>
    for j in range(nbatches):
      ...
    valid_loss = conditional_loss(model, x_valid, t_valid_, e_valid_, elbo=False)
    valid_loss = valid_loss.detach().cpu().numpy()
    costs.append(float(valid_loss))
    dics.append(deepcopy(model.state_dict()))

    if (costs[-1] >= oldcost) is True:
      if patience == 2:
        maxm = np.argmax(costs)
        model.load_state_dict(dics[maxm])
        del dics
        gc.collect()
        return model, i
      else:
        patience += 1
    else:
      patience = 0
    oldcost = costs[-1]
  \<close>
\<close>

definition train_epoch ::
  "('p, 'o, 'x) collab \<Rightarrow> nat \<Rightarrow> 'x list \<Rightarrow> pyfloat list list list \<Rightarrow> pyfloat list list list
     \<Rightarrow> 'x list \<Rightarrow> pyfloat list \<Rightarrow> pyfloat list \<Rightarrow> bool \<Rightarrow> int \<Rightarrow> int \<Rightarrow> nat
     \<Rightarrow> ('p, 'o) train_frame \<Rightarrow> error + ('p, 'o) train_frame ctl" where
  "train_epoch C model x_train t_train e_train x_valid t_valid' e_valid' elbo bs nbatches i fr =
     (let fr1 = fold (train_batch C model x_train t_train e_train elbo bs) [0..<nat nbatches]
                  (fr\<lparr>epoch := i\<rparr>);
          valid_loss = conditional_loss C (heap fr1 ! model) x_valid t_valid' e_valid' False;
          cs = costs fr1 @ [valid_loss]
      in case dics fr1 of
           None \<Rightarrow> Inl (UnboundLocalError ''dics'')
         | Some ds \<Rightarrow>
             (let ds' = ds @ [state_dict (heap fr1 ! model)];
                  fr2 = fr1\<lparr>costs := cs, dics := Some ds'\<rparr>
              in if fl_ge (last cs) (oldcost fr2) then
                   (if patience fr2 = 2 then
                      (case np_argmax cs of
                         Inl e \<Rightarrow> Inl e
                       | Inr maxm \<Rightarrow>
                           if maxm < length ds' then
                             Inr (Leave (fr2\<lparr>heap := (heap fr2)
                                             [model := load_state_dict (heap fr2 ! model) (ds' ! maxm)],
                                           dics := None\<rparr>))
                           else Inl (IndexError ''list index out of range''))
                    else Inr (Next (fr2\<lparr>patience := patience fr2 + 1, oldcost := last cs\<rparr>)))
                 else Inr (Next (fr2\<lparr>patience := 0, oldcost := last cs\<rparr>))))"

text \<open>\<open>for i in tqdm(range(n_iter))\<close>, over the list of the indices.\<close>

fun train_loop ::
  "('p, 'o, 'x) collab \<Rightarrow> nat \<Rightarrow> 'x list \<Rightarrow> pyfloat list list list \<Rightarrow> pyfloat list list list
     \<Rightarrow> 'x list \<Rightarrow> pyfloat list \<Rightarrow> pyfloat list \<Rightarrow> bool \<Rightarrow> int \<Rightarrow> int \<Rightarrow> nat list
     \<Rightarrow> ('p, 'o) train_frame \<Rightarrow> error + ('p, 'o) train_frame ctl" where
  "train_loop C model x_train t_train e_train x_valid t_valid' e_valid' elbo bs nbatches [] fr =
     Inr (Next fr)"
| "train_loop C model x_train t_train e_train x_valid t_valid' e_valid' elbo bs nbatches (i # is) fr =
     (case train_epoch C model x_train t_train e_train x_valid t_valid' e_valid' elbo bs nbatches
             i fr of
        Inl e \<Rightarrow> Inl e
      | Inr (Leave fr') \<Rightarrow> Inr (Leave fr')
      | Inr (Next fr') \<Rightarrow>
          train_loop C model x_train t_train e_train x_valid t_valid' e_valid' elbo bs nbatches
            is fr')"

text \<open>
  \<^verbatim>\<open>
  def train_dsm(model, x_train, t_train, e_train, x_valid, t_valid, e_valid,
                n_iter=10000, lr=1e-3, elbo=True, bs=100):
    t_train_ = _reshape_tensor_with_nans(t_train)
    e_train_ = _reshape_tensor_with_nans(e_train)
    t_valid_ = _reshape_tensor_with_nans(t_valid)
    e_valid_ = _reshape_tensor_with_nans(e_valid)

    premodel = pretrain_dsm(model, t_train_, e_train_, t_valid_, e_valid_,
                            n_iter=10000, lr=1e-2, thres=1e-4)
    model.shape.data.fill_(float(premodel.shape))
    model.scale.data.fill_(float(premodel.scale))

    model.double()
    optimizer = torch.optim.Adam(model.parameters(), lr=lr)

    patience = 0
    oldcost = float('inf')

    nbatches = int(x_train.shape[0]/bs)+1

    dics = []
    costs = []
    i = 0
    for i in tqdm(range(n_iter)):
      ...
    return model, i
  \<close>
  \<open>train_dsm_setup\<close> is the part before the loop, \<open>train_dsm_ctl\<close> runs the loop from
  there, and \<open>train_dsm\<close> gives the heap with the pair that is returned.
\<close>

definition train_dsm_setup ::
  "('p, 'o, 'x) collab \<Rightarrow> 'p heap \<Rightarrow> nat \<Rightarrow> pyfloat list list list \<Rightarrow> pyfloat list list list
     \<Rightarrow> pyfloat list list list \<Rightarrow> pyfloat list list list \<Rightarrow> pyfloat
     \<Rightarrow> error + ('p, 'o) train_frame" where
  "train_dsm_setup C h model t_train e_train t_valid e_valid l =
     (let t_train' = reshape_tensor_with_nans t_train;
          e_train' = reshape_tensor_with_nans e_train;
          t_valid' = reshape_tensor_with_nans t_valid;
          e_valid' = reshape_tensor_with_nans e_valid;
          hp = pretrain_dsm C h model t_train' e_train' t_valid' e_valid' 10000
                 (Fin (1 / 100)) (Fin (1 / 10000));
          h1 = fst hp;
          premodel = snd hp
      in case py_float (shape (h1 ! premodel)) of
           Inl e \<Rightarrow> Inl e
         | Inr sh \<Rightarrow>
             (let h2 = h1[model := (h1 ! model)\<lparr>shape := fill (shape (h1 ! model)) sh\<rparr>]
              in case py_float (scale (h2 ! premodel)) of
                   Inl e \<Rightarrow> Inl e
                 | Inr sc \<Rightarrow>
                     (let h3 = h2[model := (h2 ! model)\<lparr>scale := fill (scale (h2 ! model)) sc\<rparr>];
                          h4 = h3[model := double C (h3 ! model)];
                          opt = torch_optim C Adam model l
                      in Inr \<lparr>heap = h4, optimizer = opt, oldcost = PInf, patience = 0,
                               costs = [], dics = Some [], epoch = 0\<rparr>)))"

definition train_dsm_ctl ::
  "('p, 'o, 'x) collab \<Rightarrow> 'p heap \<Rightarrow> nat \<Rightarrow> 'x list \<Rightarrow> pyfloat list list list
     \<Rightarrow> pyfloat list list list \<Rightarrow> 'x list \<Rightarrow> pyfloat list list list \<Rightarrow> pyfloat list list list
     \<Rightarrow> int \<Rightarrow> pyfloat \<Rightarrow> bool \<Rightarrow> int \<Rightarrow> error + ('p, 'o) train_frame ctl" where
  "train_dsm_ctl C h model x_train t_train e_train x_valid t_valid e_valid n_iter l elbo bs =
     (case train_dsm_setup C h model t_train e_train t_valid e_valid l of
        Inl e \<Rightarrow> Inl e
      | Inr fr0 \<Rightarrow>
          (case int_quotient (length x_train) bs of
             Inl e \<Rightarrow> Inl e
           | Inr q \<Rightarrow>
               train_loop C model x_train t_train e_train x_valid
                 (reshape_tensor_with_nans t_valid) (reshape_tensor_with_nans e_valid)
                 elbo bs (q + 1) [0..<nat n_iter] fr0))"

definition train_dsm ::
  "('p, 'o, 'x) collab \<Rightarrow> 'p heap \<Rightarrow> nat \<Rightarrow> 'x list \<Rightarrow> pyfloat list list list
     \<Rightarrow> pyfloat list list list \<Rightarrow> 'x list \<Rightarrow> pyfloat list list list \<Rightarrow> pyfloat list list list
     \<Rightarrow> int \<Rightarrow> pyfloat \<Rightarrow> bool \<Rightarrow> int \<Rightarrow> error + 'p heap \<times> nat \<times> nat" where
  "train_dsm C h model x_train t_train e_train x_valid t_valid e_valid n_iter l elbo bs =
     (case train_dsm_ctl C h model x_train t_train e_train x_valid t_valid e_valid n_iter l
             elbo bs of
        Inl e \<Rightarrow> Inl e
      | Inr (Leave fr) \<Rightarrow> Inr (heap fr, model, epoch fr)
      | Inr (Next fr) \<Rightarrow> Inr (heap fr, model, epoch fr))"

section \<open>Runs of the two loops, told from the collaborators alone\<close>

text \<open>
  The optimizer state and the premodel after \<open>n\<close> optimisation steps of pretraining,
  the validation loss that iteration \<open>k\<close> records, and whether iteration \<open>k\<close> finds
  the loss within \<open>thres\<close> of the one before (of \<open>+inf\<close> at iteration 0).
\<close>

definition pre_step ::
  "('p, 'o, 'x) collab \<Rightarrow> opt_kind \<Rightarrow> pyfloat \<Rightarrow> pyfloat list \<Rightarrow> pyfloat list
     \<Rightarrow> 'o \<times> 'p model \<Rightarrow> 'o \<times> 'p model" where
  "pre_step C k l t_train e_train sm =
     unconditional_step C k l (fst sm) (snd sm) t_train e_train"

definition pre_run ::
  "('p, 'o, 'x) collab \<Rightarrow> string \<Rightarrow> pyfloat \<Rightarrow> pyfloat list \<Rightarrow> pyfloat list \<Rightarrow> nat
     \<Rightarrow> 'o \<times> 'p model" where
  "pre_run C d l t_train e_train n =
     (pre_step C Adam l t_train e_train ^^ n)
       (new_state C, double C (DeepSurvivalMachinesTorch C 1 1 d))"

definition pre_cost ::
  "('p, 'o, 'x) collab \<Rightarrow> string \<Rightarrow> pyfloat \<Rightarrow> pyfloat list \<Rightarrow> pyfloat list \<Rightarrow> pyfloat list
     \<Rightarrow> pyfloat list \<Rightarrow> nat \<Rightarrow> pyfloat" where
  "pre_cost C d l t_train e_train t_valid e_valid k =
     unconditional_loss C (snd (pre_run C d l t_train e_train (Suc k))) t_valid e_valid"

definition pre_hit ::
  "('p, 'o, 'x) collab \<Rightarrow> string \<Rightarrow> pyfloat \<Rightarrow> pyfloat list \<Rightarrow> pyfloat list \<Rightarrow> pyfloat list
     \<Rightarrow> pyfloat list \<Rightarrow> pyfloat \<Rightarrow> nat \<Rightarrow> bool" where
  "pre_hit C d l t_train e_train t_valid e_valid thres k =
     fl_lt (fl_abs (fl_sub (pre_cost C d l t_train e_train t_valid e_valid k)
                      (if k = 0 then PInf
                       else pre_cost C d l t_train e_train t_valid e_valid (k - 1))))
       thres"

text \<open>
  The number of iterations the pretraining loop runs: from iteration \<open>k\<close> with
  \<open>patience = p\<close> and \<open>n\<close> iterations left, given which iterations are hits.
\<close>

fun pre_iters :: "(nat \<Rightarrow> bool) \<Rightarrow> nat \<Rightarrow> nat \<Rightarrow> nat \<Rightarrow> nat" where
  "pre_iters hit k p 0 = k"
| "pre_iters hit k p (Suc n) =
     (if hit k then (if p + 1 = 3 then Suc k else pre_iters hit (Suc k) (p + 1) n)
      else pre_iters hit (Suc k) p n)"

text \<open>Every iteration appends one loss to \<open>costs\<close>: its length counts the iterations.\<close>

definition pretrain_iterations ::
  "('p, 'o, 'x) collab \<Rightarrow> 'p heap \<Rightarrow> nat \<Rightarrow> pyfloat list \<Rightarrow> pyfloat list \<Rightarrow> pyfloat list
     \<Rightarrow> pyfloat list \<Rightarrow> int \<Rightarrow> pyfloat \<Rightarrow> pyfloat \<Rightarrow> nat" where
  "pretrain_iterations C h model t_train e_train t_valid e_valid n_iter l thres =
     length (costs (pretrain_dsm_frame C h model t_train e_train t_valid e_valid n_iter l thres))"

text \<open>
  The same for training: one step on a batch given by its three slices, the batches
  of one epoch, the optimizer state and the model after \<open>n\<close> epochs, the validation
  loss and the snapshot that epoch \<open>k\<close> records.
\<close>

definition batch_step ::
  "('p, 'o, 'x) collab \<Rightarrow> opt_kind \<Rightarrow> pyfloat \<Rightarrow> bool
     \<Rightarrow> 'x list \<times> pyfloat list list list \<times> pyfloat list list list
     \<Rightarrow> 'o \<times> 'p model \<Rightarrow> 'o \<times> 'p model" where
  "batch_step C k l elbo b sm =
     conditional_step C k l (fst sm) (snd sm) (fst b)
       (reshape_tensor_with_nans (fst (snd b))) (reshape_tensor_with_nans (snd (snd b))) elbo"


definition epoch_batch ::
  "('p, 'o, 'x) collab \<Rightarrow> opt_kind \<Rightarrow> pyfloat \<Rightarrow> 'x list \<Rightarrow> pyfloat list list list
     \<Rightarrow> pyfloat list list list \<Rightarrow> bool \<Rightarrow> int \<Rightarrow> nat \<Rightarrow> 'o \<times> 'p model \<Rightarrow> 'o \<times> 'p model" where
  "epoch_batch C k l x_train t_train e_train elbo bs j sm =
     batch_step C k l elbo
       (py_slice x_train (int j * bs) ((int j + 1) * bs),
        py_slice t_train (int j * bs) ((int j + 1) * bs),
        py_slice e_train (int j * bs) ((int j + 1) * bs)) sm"

definition epoch_run ::
  "('p, 'o, 'x) collab \<Rightarrow> opt_kind \<Rightarrow> pyfloat \<Rightarrow> 'x list \<Rightarrow> pyfloat list list list
     \<Rightarrow> pyfloat list list list \<Rightarrow> bool \<Rightarrow> int \<Rightarrow> int \<Rightarrow> 'o \<times> 'p model \<Rightarrow> 'o \<times> 'p model" where
  "epoch_run C k l x_train t_train e_train elbo bs nbatches sm =
     fold (epoch_batch C k l x_train t_train e_train elbo bs) [0..<nat nbatches] sm"

definition train_run ::
  "('p, 'o, 'x) collab \<Rightarrow> pyfloat \<Rightarrow> 'x list \<Rightarrow> pyfloat list list list
     \<Rightarrow> pyfloat list list list \<Rightarrow> bool \<Rightarrow> int \<Rightarrow> int \<Rightarrow> 'p model \<Rightarrow> nat \<Rightarrow> 'o \<times> 'p model" where
  "train_run C l x_train t_train e_train elbo bs nbatches m0 n =
     (epoch_run C Adam l x_train t_train e_train elbo bs nbatches ^^ n) (new_state C, m0)"

definition epoch_cost ::
  "('p, 'o, 'x) collab \<Rightarrow> pyfloat \<Rightarrow> 'x list \<Rightarrow> pyfloat list list list
     \<Rightarrow> pyfloat list list list \<Rightarrow> bool \<Rightarrow> int \<Rightarrow> int \<Rightarrow> 'x list \<Rightarrow> pyfloat list \<Rightarrow> pyfloat list
     \<Rightarrow> 'p model \<Rightarrow> nat \<Rightarrow> pyfloat" where
  "epoch_cost C l x_train t_train e_train elbo bs nbatches x_valid t_valid' e_valid' m0 k =
     conditional_loss C
       (snd (train_run C l x_train t_train e_train elbo bs nbatches m0 (Suc k)))
       x_valid t_valid' e_valid' False"

definition epoch_snapshot ::
  "('p, 'o, 'x) collab \<Rightarrow> pyfloat \<Rightarrow> 'x list \<Rightarrow> pyfloat list list list
     \<Rightarrow> pyfloat list list list \<Rightarrow> bool \<Rightarrow> int \<Rightarrow> int \<Rightarrow> 'p model \<Rightarrow> nat \<Rightarrow> 'p state_dict_t" where
  "epoch_snapshot C l x_train t_train e_train elbo bs nbatches m0 k =
     state_dict (snd (train_run C l x_train t_train e_train elbo bs nbatches m0 (Suc k)))"

text \<open>Epoch \<open>k\<close> does not improve: its loss is \<open>>=\<close> the one before (\<open>+inf\<close> at epoch 0).\<close>

definition non_improving :: "(nat \<Rightarrow> pyfloat) \<Rightarrow> nat \<Rightarrow> bool" where
  "non_improving cost k = fl_ge (cost k) (if k = 0 then PInf else cost (k - 1))"

text \<open>
  The epoch at which training returns early, if any: from epoch \<open>k\<close> with
  \<open>patience = p\<close> and \<open>n\<close> epochs left, given which epochs do not improve.
\<close>

fun stop_epoch :: "(nat \<Rightarrow> bool) \<Rightarrow> nat \<Rightarrow> nat \<Rightarrow> nat \<Rightarrow> nat option" where
  "stop_epoch f k p 0 = None"
| "stop_epoch f k p (Suc n) =
     (if f k then (if p = 2 then Some k else stop_epoch f (Suc k) (p + 1) n)
      else stop_epoch f (Suc k) 0 n)"

text \<open>A frame whose optimizer state and model are replaced.\<close>

definition with_model ::
  "nat \<Rightarrow> ('p, 'o) train_frame \<Rightarrow> 'o \<times> 'p model \<Rightarrow> ('p, 'o) train_frame" where
  "with_model model fr sm =
     fr\<lparr>heap := (heap fr)[model := snd sm], optimizer := (optimizer fr)\<lparr>ostate := fst sm\<rparr>\<rparr>"

section \<open>Concrete runs\<close>

text \<open>
  Collaborators for concrete runs: a model counts the optimisation steps made on it
  in \<open>net\<close>, the unconditional loss is constantly 1, and the conditional loss after
  \<open>n\<close> steps is the \<open>n\<close>-th entry of a given list.
\<close>

definition counting_model :: "string \<Rightarrow> string \<Rightarrow> nat \<Rightarrow> real \<Rightarrow> nat model" where
  "counting_model d opt k v =
     \<lparr>dist_tag = d, optimizer_tag = opt, shape = replicate k (Fin v),
        scale = replicate k (Fin v), net = 0\<rparr>"

definition counting_collab :: "pyfloat list \<Rightarrow> (nat, unit, unit) collab" where
  "counting_collab cs =
     \<lparr>DeepSurvivalMachinesTorch = (\<lambda>inputdim k d. counting_model d ''Adam'' k (- 1)),
        double = (\<lambda>m. m),
        new_state = (),
        unconditional_loss = (\<lambda>m t e. Fin 1),
        unconditional_step = (\<lambda>k l s m t e. (s, m\<lparr>net := net m + 1\<rparr>)),
        conditional_loss =
          (\<lambda>m x t e elbo. if 0 < net m \<and> net m \<le> length cs then cs ! (net m - 1) else Fin 0),
        conditional_step = (\<lambda>k l s m x t e elbo. (s, m\<lparr>net := net m + 1\<rparr>))\<rparr>"

section \<open>Properties\<close>

subsection \<open>Floating point subtraction\<close>

lemma round_binary64_zero: "round_binary64 0 = Fin 0"
  by (simp add: round_binary64_def)

lemma find_upto_greatest:
  assumes "a \<le> k" "k \<le> b" "P k" "\<forall>e. k < e \<and> e \<le> b \<longrightarrow> \<not> P e"
  shows "find P (rev [a..b]) = Some k"
  using assms
proof (induction "nat (b - k)" arbitrary: b)
  case 0
  then have "b = k" by simp
  moreover have "[a..k] = [a..k - 1] @ [k]" using \<open>a \<le> k\<close> by (simp add: upto_rec2)
  ultimately show ?case using \<open>P k\<close> by simp
next
  case (Suc n)
  then have kb: "k < b" by simp
  then have "[a..b] = [a..b - 1] @ [b]" using \<open>a \<le> k\<close> by (simp add: upto_rec2)
  moreover have "\<not> P b" using Suc.prems(4) kb by simp
  moreover have "find P (rev [a..b - 1]) = Some k"
    using Suc by (intro Suc.hyps(1)) auto
  ultimately show ?case by simp
qed

lemma binary64_exponent_eq:
  assumes "2 powi k \<le> \<bar>x\<bar>" "\<bar>x\<bar> < 2 powi (k + 1)" "- 1022 \<le> k" "k \<le> 1023"
  shows "binary64_exponent x = k"
proof -
  have "find (\<lambda>e. 2 powi e \<le> \<bar>x\<bar>) (rev [- 1022..1023]) = Some k"
  proof (rule find_upto_greatest)
    show "- 1022 \<le> k" "k \<le> 1023" "2 powi k \<le> \<bar>x\<bar>" by (rule assms)+
    show "\<forall>e. k < e \<and> e \<le> 1023 \<longrightarrow> \<not> 2 powi e \<le> \<bar>x\<bar>"
    proof (intro allI impI)
      fix e :: int assume e: "k < e \<and> e \<le> 1023"
      then have "(2::real) powi (k + 1) \<le> 2 powi e"
        by (intro power_int_increasing) auto
      with assms(2) show "\<not> 2 powi e \<le> \<bar>x\<bar>" by simp
    qed
  qed
  then show ?thesis by (simp add: binary64_exponent_def)
qed

text \<open>
  Rounding at work: \<open>1 - 1e16\<close> and \<open>1e16 - 1\<close> lie halfway between two doubles and go
  to the even one, so that \<open>|1 - 1e16|\<close> is \<open>1e16\<close> and not less.
\<close>

lemma fl_sub_one_1e16:
  "fl_sub (Fin 1) (Fin 10000000000000000) = Fin (- 10000000000000000)"
  "fl_sub (Fin 10000000000000000) (Fin 1) = Fin 10000000000000000"
proof -
  have e: "binary64_exponent (- 9999999999999999) = 53" "binary64_exponent 9999999999999999 = 53"
    by (rule binary64_exponent_eq; simp add: power_int_def)+
  have r: "round_half_even (9999999999999999 / 2) = 5000000000000000"
    by (simp add: round_half_even_def Let_def)
  show "fl_sub (Fin 1) (Fin 10000000000000000) = Fin (- 10000000000000000)"
    by (simp add: round_binary64_def Let_def e r power_int_def)
  show "fl_sub (Fin 10000000000000000) (Fin 1) = Fin 10000000000000000"
    by (simp add: round_binary64_def Let_def e r power_int_def)
qed

subsection \<open>The optimizer factory\<close>

text \<open>
  C8. \<open>get_optimizer\<close> returns an optimizer of the declared kind, bound to the model's
  parameters, with the given learning rate, for each of the declarations \<open>Adam\<close>, \<open>SGD\<close>
  and \<open>RMSProp\<close>; for every other declaration it fails with a \<open>NotImplementedError\<close>
  whose message contains the declared value. It only reads the heap: the failure
  comes before any training step.
\<close>

theorem get_optimizer_kinds:
  "(optimizer_tag (h ! model) = ''Adam'' \<longrightarrow>
      get_optimizer C h model l = Inr \<lparr>okind = Adam, lr = l, target = model, ostate = new_state C\<rparr>)
   \<and> (optimizer_tag (h ! model) = ''SGD'' \<longrightarrow>
      get_optimizer C h model l = Inr \<lparr>okind = SGD, lr = l, target = model, ostate = new_state C\<rparr>)
   \<and> (optimizer_tag (h ! model) = ''RMSProp'' \<longrightarrow>
      get_optimizer C h model l =
        Inr \<lparr>okind = RMSprop, lr = l, target = model, ostate = new_state C\<rparr>)
   \<and> (optimizer_tag (h ! model) \<notin> {''Adam'', ''SGD'', ''RMSProp''} \<longrightarrow>
      get_optimizer C h model l =
        Inl (NotImplementedError
               (''Optimizer '' @ optimizer_tag (h ! model) @ '' is not implemented''))
      \<and> sublist (optimizer_tag (h ! model))
          (''Optimizer '' @ optimizer_tag (h ! model) @ '' is not implemented''))"
proof -
  have "sublist (optimizer_tag (h ! model))
          (''Optimizer '' @ optimizer_tag (h ! model) @ '' is not implemented'')"
    by (rule sublist_appendI)
  then show ?thesis
    by (simp add: get_optimizer_def torch_optim_def)
qed

theorem get_optimizer_kinds_witness:
  "get_optimizer (counting_collab []) [counting_model ''Weibull'' ''Adam'' 1 0] 0 (Fin (1 / 1000)) =
     Inr \<lparr>okind = Adam, lr = Fin (1 / 1000), target = 0, ostate = ()\<rparr>
   \<and> get_optimizer (counting_collab []) [counting_model ''Weibull'' ''SGD'' 1 0] 0 (Fin (1 / 1000)) =
     Inr \<lparr>okind = SGD, lr = Fin (1 / 1000), target = 0, ostate = ()\<rparr>
   \<and> get_optimizer (counting_collab []) [counting_model ''Weibull'' ''RMSProp'' 1 0] 0 (Fin (1 / 1000)) =
     Inr \<lparr>okind = RMSprop, lr = Fin (1 / 1000), target = 0, ostate = ()\<rparr>
   \<and> get_optimizer (counting_collab []) [counting_model ''Weibull'' ''Foo'' 1 0] 0 (Fin (1 / 1000)) =
     Inl (NotImplementedError ''Optimizer Foo is not implemented'')
   \<and> sublist ''Foo'' ''Optimizer Foo is not implemented''"
  using get_optimizer_kinds [of "[counting_model ''Weibull'' ''Adam'' 1 0]" 0 "counting_collab []"
      "Fin (1 / 1000)"]
    get_optimizer_kinds [of "[counting_model ''Weibull'' ''SGD'' 1 0]" 0 "counting_collab []"
      "Fin (1 / 1000)"]
    get_optimizer_kinds [of "[counting_model ''Weibull'' ''RMSProp'' 1 0]" 0 "counting_collab []"
      "Fin (1 / 1000)"]
    get_optimizer_kinds [of "[counting_model ''Weibull'' ''Foo'' 1 0]" 0 "counting_collab []"
      "Fin (1 / 1000)"]
  by (simp add: counting_model_def counting_collab_def)

subsection \<open>Padding\<close>

text \<open>
  C9. On an empty input both padding functions fail with the \<open>ValueError\<close> of \<open>max\<close>
  on an empty sequence: the maximum length is undefined, and nothing is computed
  from it.
\<close>

theorem padding_empty_input:
  "get_padded_features [] = Inl (ValueError ''max() arg is an empty sequence'')
   \<and> get_padded_targets [] = Inl (ValueError ''max() arg is an empty sequence'')"
  by (simp add: get_padded_features_def get_padded_targets_def)

lemma py_max_Max:
  assumes "ns \<noteq> []"
  shows "py_max ns = Inr (Max (set ns))"
proof (cases ns)
  case Nil
  with assms show ?thesis by simp
next
  case (Cons n ns')
  have "Max (set (n # ns')) = fold max ns' n" by (rule Max.set_eq_fold)
  then show ?thesis unfolding Cons by (simp only: py_max.simps)
qed

lemma map2_map_left: "map2 f (map g xs) xs = map (\<lambda>x. f (g x) x) xs"
  by (induction xs) simp_all

lemma np_array_same_ncols:
  "\<forall>a\<in>set padx. ncols a = f \<Longrightarrow> np_array padx = Inr padx"
  by (cases padx) (simp_all add: np_array_def list_all_iff)

text \<open>
  C6. For a non-empty list of two-dimensional arrays with a common number of columns,
  \<open>_get_padded_features\<close> returns one padded array for each subject; cutting each
  back to the subject's own number of rows gives the input again; every padded array
  has as many rows as the longest subject, and its rows from the subject's own length
  on are rows of not-a-number.
\<close>

theorem pad_features_roundtrip:
  assumes "x \<noteq> []" and "\<forall>a\<in>set x. ncols a = f"
  shows "\<exists>p. get_padded_features x = Inr p \<and> length p = length x
     \<and> map2 (\<lambda>a xi. a\<lparr>rows := take (length (rows xi)) (rows a)\<rparr>) p x = x
     \<and> (\<forall>i<length x.
           ncols (p ! i) = f
           \<and> length (rows (p ! i)) = Max (set (map (\<lambda>xi. length (rows xi)) x))
           \<and> (\<forall>j. length (rows (x ! i)) \<le> j \<and> j < length (rows (p ! i)) \<longrightarrow>
                 rows (p ! i) ! j = replicate f NaN))"
proof -
  define d where "d = Max (set (map (\<lambda>xi. length (rows xi)) x))"
  define p where "p = map (pad_feature d) x"
  have mx: "py_max (map (\<lambda>xi. length (rows xi)) x) = Inr d"
    using assms(1) by (simp add: py_max_Max d_def)
  have "\<forall>a\<in>set p. ncols a = f"
    using assms(2) by (simp add: p_def pad_feature_def)
  then have "np_array p = Inr p"
    by (rule np_array_same_ncols)
  then have res: "get_padded_features x = Inr p"
    by (simp add: get_padded_features_def mx p_def[symmetric])
  have le: "length (rows (x ! i)) \<le> d" if "i < length x" for i
    unfolding d_def using that by (intro Max_ge) auto
  have rt: "map2 (\<lambda>a xi. a\<lparr>rows := take (length (rows xi)) (rows a)\<rparr>) p x = x"
    unfolding p_def map2_map_left by (simp add: pad_feature_def map_idI)
  have each: "ncols (p ! i) = f
       \<and> length (rows (p ! i)) = d
       \<and> (\<forall>j. length (rows (x ! i)) \<le> j \<and> j < length (rows (p ! i)) \<longrightarrow>
             rows (p ! i) ! j = replicate f NaN)" if "i < length x" for i
    using that le[OF that] assms(2) by (auto simp add: p_def pad_feature_def nth_append)
  from res rt each show ?thesis
    unfolding d_def[symmetric] by (auto simp add: p_def)
qed

theorem pad_features_roundtrip_witness:
  "[\<lparr>rows = [[Fin 1, Fin 2]], ncols = 2\<rparr>,
    \<lparr>rows = [[Fin 3, Fin 4], [Fin 5, Fin 6]], ncols = 2\<rparr>] \<noteq> []
   \<and> get_padded_features [\<lparr>rows = [[Fin 1, Fin 2]], ncols = 2\<rparr>,
                           \<lparr>rows = [[Fin 3, Fin 4], [Fin 5, Fin 6]], ncols = 2\<rparr>] =
       Inr [\<lparr>rows = [[Fin 1, Fin 2], [NaN, NaN]], ncols = 2\<rparr>,
            \<lparr>rows = [[Fin 3, Fin 4], [Fin 5, Fin 6]], ncols = 2\<rparr>]"
  using pad_features_roundtrip [of "[\<lparr>rows = [[Fin 1, Fin 2]], ncols = 2\<rparr>,
                           \<lparr>rows = [[Fin 3, Fin 4], [Fin 5, Fin 6]], ncols = 2\<rparr>]" 2]
  by (simp add: get_padded_features_def np_array_def pad_feature_def numeral_2_eq_2)

lemma filter_pad_target: "filter (\<lambda>v. \<not> isnan v) (pad_target d ti) = filter (\<lambda>v. \<not> isnan v) ti"
  by (simp add: pad_target_def)

lemma concat_singletons: "concat (map (\<lambda>v. [v]) xs) = xs"
  by (induction xs) simp_all

lemma reshape_padded_targets:
  "reshape_tensor_with_nans (map (\<lambda>ti. map (\<lambda>v. [v]) (pad_target d ti)) t) =
     filter (\<lambda>v. \<not> isnan v) (concat t)"
  by (induction t)
     (simp_all add: reshape_tensor_with_nans_def concat_singletons filter_pad_target)

text \<open>
  C7 (as amended). For sequences of lengths 2, 3 and 1 none of whose entries is
  not-a-number, \<open>_reshape_tensor_with_nans\<close> on the array that \<open>_get_padded_targets\<close>
  returns (of shape \<open>[3, 3, 1]\<close>) gives the 6 entries of the sequences, subject after
  subject: exactly the entries that are not-a-number are removed.
\<close>

theorem unroll_padded_targets:
  assumes "map length t = [2, 3, 1]" and "\<forall>v\<in>set (concat t). \<not> isnan v"
  shows "\<exists>p. get_padded_targets t = Inr p
     \<and> length p = 3 \<and> (\<forall>r\<in>set p. length r = 3)
     \<and> reshape_tensor_with_nans p = concat t
     \<and> length (reshape_tensor_with_nans p) = 6"
proof -
  define p where "p = map (\<lambda>ti. map (\<lambda>v. [v]) (pad_target 3 ti)) t"
  have mx: "py_max (map length t) = Inr 3"
    by (simp add: assms(1))
  have res: "get_padded_targets t = Inr p"
    by (simp add: get_padded_targets_def mx p_def)
  have "length t = 3" using assms(1) by (metis length_map length_Cons list.size(3) numeral_3_eq_3)
  then have len: "length p = 3" by (simp add: p_def)
  have "\<forall>n\<in>set (map length t). n \<le> 3" by (simp add: assms(1))
  then have rows: "\<forall>r\<in>set p. length r = 3"
    by (auto simp add: p_def pad_target_def)
  have "filter (\<lambda>v. \<not> isnan v) (concat t) = concat t"
    using assms(2) by (simp add: filter_id_conv)
  then have flat: "reshape_tensor_with_nans p = concat t"
    by (simp add: p_def reshape_padded_targets)
  have "length (concat t) = sum_list (map length t)"
    by (simp add: length_concat)
  then have "length (concat t) = 6" by (simp add: assms(1))
  with res len rows flat show ?thesis by simp
qed

theorem unroll_padded_targets_witness:
  "map length [[Fin 1, Fin 2], [Fin 3, Fin 4, Fin 5], [Fin 6]] = [2, 3, 1]
   \<and> get_padded_targets [[Fin 1, Fin 2], [Fin 3, Fin 4, Fin 5], [Fin 6]] =
       Inr [[[Fin 1], [Fin 2], [NaN]], [[Fin 3], [Fin 4], [Fin 5]], [[Fin 6], [NaN], [NaN]]]
   \<and> reshape_tensor_with_nans
        [[[Fin 1], [Fin 2], [NaN]], [[Fin 3], [Fin 4], [Fin 5]], [[Fin 6], [NaN], [NaN]]] =
       [Fin 1, Fin 2, Fin 3, Fin 4, Fin 5, Fin 6]"
  using unroll_padded_targets [of "[[Fin 1, Fin 2], [Fin 3, Fin 4, Fin 5], [Fin 6]]"]
  by (simp add: get_padded_targets_def pad_target_def numeral_2_eq_2)

text \<open>
  The claim as first stated fails when an entry of the data is itself not-a-number:
  it is removed with the padding, and 5 entries are left.
\<close>

theorem unroll_padded_targets_nan_counterexample:
  "map length [[NaN, Fin 2], [Fin 3, Fin 4, Fin 5], [Fin 6]] = [2, 3, 1]
   \<and> get_padded_targets [[NaN, Fin 2], [Fin 3, Fin 4, Fin 5], [Fin 6]] =
       Inr [[[NaN], [Fin 2], [NaN]], [[Fin 3], [Fin 4], [Fin 5]], [[Fin 6], [NaN], [NaN]]]
   \<and> reshape_tensor_with_nans
        [[[NaN], [Fin 2], [NaN]], [[Fin 3], [Fin 4], [Fin 5]], [[Fin 6], [NaN], [NaN]]] =
       [Fin 2, Fin 3, Fin 4, Fin 5, Fin 6]
   \<and> length (reshape_tensor_with_nans
        [[[NaN], [Fin 2], [NaN]], [[Fin 3], [Fin 4], [Fin 5]], [[Fin 6], [NaN], [NaN]]]) \<noteq> 6"
  by (simp add: get_padded_targets_def pad_target_def reshape_tensor_with_nans_def
      numeral_2_eq_2)

subsection \<open>Pretraining\<close>

text \<open>
  The loop of \<open>pretrain_dsm\<close> follows \<open>pre_run\<close> and stops where \<open>pre_iters\<close> says.
\<close>

lemma pre_run_Suc:
  "pre_run C d l tt et (Suc k) =
     unconditional_step C Adam l (fst (pre_run C d l tt et k)) (snd (pre_run C d l tt et k)) tt et"
  by (simp add: pre_run_def pre_step_def)

lemma pretrain_loop_run:
  assumes "p < length (heap fr)"
    and "okind (optimizer fr) = Adam" and "lr (optimizer fr) = l"
    and "ostate (optimizer fr) = fst (pre_run C d l tt et k)"
    and "heap fr ! p = snd (pre_run C d l tt et k)"
    and "costs fr = map (pre_cost C d l tt et tv ev) [0..<k]"
    and "oldcost fr = (if k = 0 then PInf else pre_cost C d l tt et tv ev (k - 1))"
  shows "heap (pretrain_loop C p tt et tv ev thres n fr) =
           (heap fr)[p := snd (pre_run C d l tt et
              (pre_iters (pre_hit C d l tt et tv ev thres) k (patience fr) n))]
       \<and> costs (pretrain_loop C p tt et tv ev thres n fr) =
           map (pre_cost C d l tt et tv ev)
             [0..<pre_iters (pre_hit C d l tt et tv ev thres) k (patience fr) n]"
  using assms
proof (induction n arbitrary: k fr)
  case 0
  then show ?case by (metis list_update_id pre_iters.simps(1) pretrain_loop.simps(1))
next
  case (Suc n)
  let ?c = "pre_cost C d l tt et tv ev k"
  have c: "unconditional_loss C
             (snd (unconditional_step C Adam l (fst (pre_run C d l tt et k))
                     (snd (pre_run C d l tt et k)) tt et)) tv ev = ?c"
    by (simp add: pre_cost_def pre_run_Suc)
  have hit: "fl_lt (fl_abs (fl_sub ?c (oldcost fr))) thres = pre_hit C d l tt et tv ev thres k"
    using Suc.prems(7) by (simp add: pre_hit_def)
  show ?case
  proof (cases "pre_hit C d l tt et tv ev thres k \<and> patience fr + 1 = 3")
    case True
    then show ?thesis
      using Suc.prems c hit
      by (simp add: pretrain_iter_def Let_def pre_run_Suc)
  next
    case False
    define fr' where "fr' = (case pretrain_iter C p tt et tv ev thres fr of Next f \<Rightarrow> f | Leave f \<Rightarrow> f)"
    have nxt: "pretrain_iter C p tt et tv ev thres fr = Next fr'"
      using False Suc.prems c hit
      by (auto simp add: fr'_def pretrain_iter_def Let_def)
    have props: "p < length (heap fr')" "okind (optimizer fr') = Adam" "lr (optimizer fr') = l"
      "ostate (optimizer fr') = fst (pre_run C d l tt et (Suc k))"
      "heap fr' ! p = snd (pre_run C d l tt et (Suc k))"
      "costs fr' = map (pre_cost C d l tt et tv ev) [0..<Suc k]"
      "oldcost fr' = (if Suc k = 0 then PInf else pre_cost C d l tt et tv ev (Suc k - 1))"
      "heap fr' = (heap fr)[p := snd (pre_run C d l tt et (Suc k))]"
      "patience fr' = (if pre_hit C d l tt et tv ev thres k then patience fr + 1 else patience fr)"
      using False Suc.prems c hit
      by (auto simp add: fr'_def pretrain_iter_def Let_def pre_run_Suc)
    from Suc.IH[OF props(1-7)] nxt props(8,9) False
    show ?thesis by auto
  qed
qed

text \<open>The whole of pretraining.\<close>

lemma pretrain_dsm_frame_run:
  "heap (pretrain_dsm_frame C h model tt et tv ev n_iter l thres) =
     h @ [snd (pre_run C (dist_tag (h ! model)) l tt et
            (pre_iters (pre_hit C (dist_tag (h ! model)) l tt et tv ev thres) 0 0 (nat n_iter)))]
   \<and> costs (pretrain_dsm_frame C h model tt et tv ev n_iter l thres) =
     map (pre_cost C (dist_tag (h ! model)) l tt et tv ev)
       [0..<pre_iters (pre_hit C (dist_tag (h ! model)) l tt et tv ev thres) 0 0 (nat n_iter)]"
proof -
  let ?d = "dist_tag (h ! model)"
  let ?fr = "\<lparr>heap = (h @ [DeepSurvivalMachinesTorch C 1 1 ?d])
                 [length h := double C ((h @ [DeepSurvivalMachinesTorch C 1 1 ?d]) ! length h)],
             optimizer = torch_optim C Adam (length h) l, oldcost = PInf, patience = 0,
             costs = []\<rparr>"
  have "heap (pretrain_loop C (length h) tt et tv ev thres (nat n_iter) ?fr) =
           (heap ?fr)[length h := snd (pre_run C ?d l tt et
              (pre_iters (pre_hit C ?d l tt et tv ev thres) 0 (patience ?fr) (nat n_iter)))]
       \<and> costs (pretrain_loop C (length h) tt et tv ev thres (nat n_iter) ?fr) =
           map (pre_cost C ?d l tt et tv ev)
             [0..<pre_iters (pre_hit C ?d l tt et tv ev thres) 0 (patience ?fr) (nat n_iter)]"
    by (rule pretrain_loop_run) (simp_all add: torch_optim_def pre_run_def)
  then show ?thesis
    by (simp add: pretrain_dsm_frame_def Let_def)
qed

lemma pre_iters_bounds: "k \<le> pre_iters hit k p n \<and> pre_iters hit k p n \<le> k + n"
proof (induction n arbitrary: k p)
  case 0
  show ?case by simp
next
  case (Suc n)
  from Suc[of "Suc k" "p + 1"] Suc[of "Suc k" p] show ?case by auto
qed

lemma pre_iters_enough_hits:
  "p \<le> 2 \<Longrightarrow> m \<le> n \<Longrightarrow> 3 \<le> p + length (filter hit [k..<k + m])
     \<Longrightarrow> pre_iters hit k p n \<le> k + m"
proof (induction n arbitrary: k p m)
  case 0
  then show ?case by simp
next
  case (Suc n)
  from Suc.prems have "m \<noteq> 0" by (cases m) auto
  then obtain m' where m: "m = Suc m'" by (cases m) auto
  have "[k..<k + m] = k # [Suc k..<Suc k + m']"
    by (simp add: m upt_conv_Cons)
  then have len: "length (filter hit [k..<k + m]) =
      (if hit k then 1 else 0) + length (filter hit [Suc k..<Suc k + m'])"
    by (simp only: filter.simps) simp
  have m': "m' \<le> n" using Suc.prems(2) m by simp
  show ?case
  proof (cases "hit k")
    case True
    show ?thesis
    proof (cases "p + 1 = 3")
      case True
      with \<open>hit k\<close> show ?thesis by (simp add: m)
    next
      case False
      have p1: "p + 1 \<le> 2" using False Suc.prems(1) by arith
      have "3 \<le> (p + 1) + length (filter hit [Suc k..<Suc k + m'])"
        using Suc.prems(3) len True by simp
      with p1 m' have "pre_iters hit (Suc k) (p + 1) n \<le> Suc k + m'"
        by (rule Suc.IH)
      with True False show ?thesis by (simp add: m)
    qed
  next
    case False
    have "3 \<le> p + length (filter hit [Suc k..<Suc k + m'])"
      using Suc.prems(3) len False by simp
    with Suc.prems(1) m' have "pre_iters hit (Suc k) p n \<le> Suc k + m'"
      by (rule Suc.IH)
    with False show ?thesis by (simp add: m)
  qed
qed

lemma pre_iters_three_in_a_row:
  assumes "hit j" "hit (j + 1)" "hit (j + 2)" "j + 2 < n"
  shows "pre_iters hit 0 0 n \<le> j + 3"
proof -
  have "[0..<0 + (j + 3)] = [0..<j] @ [j, j + 1, j + 2]"
    by (simp add: numeral_3_eq_3)
  then have "length (filter hit [0..<0 + (j + 3)]) = length (filter hit [0..<j]) + 3"
    using assms(1-3) by (simp only: filter_append filter.simps length_append) simp
  then have a: "3 \<le> 0 + length (filter hit [0..<0 + (j + 3)])"
    by simp
  have b: "j + 3 \<le> n" using assms(4) by simp
  have c: "(0::nat) \<le> 2" by simp
  from c b a have "pre_iters hit 0 0 n \<le> 0 + (j + 3)"
    by (rule pre_iters_enough_hits)
  then show ?thesis by simp
qed

lemma pre_iters_constant:
  assumes "\<not> hit 0" "hit 1" "hit 2" "hit 3" "4 \<le> n"
  shows "pre_iters hit 0 0 n = 4"
proof -
  from assms(5) have "n = Suc (Suc (Suc (Suc (n - 4))))" by arith
  then obtain m where n: "n = Suc (Suc (Suc (Suc m)))" ..
  have h: "hit (Suc 0)" "hit (Suc (Suc 0))" "hit (Suc (Suc (Suc 0)))"
    using assms(2-4) by (simp_all add: numeral_2_eq_2 numeral_3_eq_3)
  show ?thesis
    unfolding n using assms(1) h by simp
qed

lemma pretrain_loop_numeral:
  "pretrain_loop C premodel t_train e_train t_valid e_valid thres (numeral k) fr =
     (case pretrain_iter C premodel t_train e_train t_valid e_valid thres fr of
        Leave fr' \<Rightarrow> fr'
      | Next fr' \<Rightarrow> pretrain_loop C premodel t_train e_train t_valid e_valid thres (pred_numeral k) fr')"
  by (simp add: numeral_eq_Suc)

lemma fl_lt_PInf_left: "\<not> fl_lt PInf x"
  by (cases x) simp_all

text \<open>
  C3 (as amended). \<open>pretrain_dsm\<close> stops early when the absolute change between the
  current and the previous validation loss is below the threshold on three
  consecutive iterations \<open>j\<close>, \<open>j + 1\<close>, \<open>j + 2\<close>: it has then run at most \<open>j + 3\<close>
  iterations. When the validation loss is the same finite value at every iteration,
  the threshold is positive and \<open>n_iter\<close> is at least 4, it runs exactly 4 iterations
  (not 3: the first iteration is compared with \<open>+inf\<close> and does not count), and the
  premodel it returns has had 4 optimisation steps.
\<close>

theorem pretrain_dsm_early_exit:
  "(pre_hit C (dist_tag (h ! model)) l tt et tv ev thres j
      \<and> pre_hit C (dist_tag (h ! model)) l tt et tv ev thres (j + 1)
      \<and> pre_hit C (dist_tag (h ! model)) l tt et tv ev thres (j + 2)
      \<and> j + 2 < nat n_iter
    \<longrightarrow> pretrain_iterations C h model tt et tv ev n_iter l thres \<le> j + 3)
   \<and> ((\<forall>k. pre_cost C (dist_tag (h ! model)) l tt et tv ev k = Fin c)
      \<and> fl_lt (Fin 0) thres \<and> 4 \<le> n_iter
    \<longrightarrow> pretrain_iterations C h model tt et tv ev n_iter l thres = 4
      \<and> fst (pretrain_dsm C h model tt et tv ev n_iter l thres) ! length h =
          snd (pre_run C (dist_tag (h ! model)) l tt et 4))"
proof -
  let ?hit = "pre_hit C (dist_tag (h ! model)) l tt et tv ev thres"
  let ?N = "pre_iters ?hit 0 0 (nat n_iter)"
  note run = pretrain_dsm_frame_run[of C h model tt et tv ev n_iter l thres]
  have iters: "pretrain_iterations C h model tt et tv ev n_iter l thres = ?N"
    using run by (simp add: pretrain_iterations_def)
  have pm: "fst (pretrain_dsm C h model tt et tv ev n_iter l thres) ! length h =
      snd (pre_run C (dist_tag (h ! model)) l tt et ?N)"
    using run by (simp add: pretrain_dsm_def)
  have row: "?N \<le> j + 3" if "?hit j" "?hit (j + 1)" "?hit (j + 2)" "j + 2 < nat n_iter"
    using that by (rule pre_iters_three_in_a_row)
  have const: "?N = 4"
    if c: "\<forall>k. pre_cost C (dist_tag (h ! model)) l tt et tv ev k = Fin c"
      and th: "fl_lt (Fin 0) thres" and n: "4 \<le> n_iter"
  proof (rule pre_iters_constant)
    show "\<not> ?hit 0" using c by (simp add: pre_hit_def fl_lt_PInf_left)
    show "?hit 1" "?hit 2" "?hit 3" using c th by (simp_all add: pre_hit_def round_binary64_zero)
    show "4 \<le> nat n_iter" using n by simp
  qed
  show ?thesis
    unfolding iters pm
  proof (intro conjI impI)
    assume "?hit j \<and> ?hit (j + 1) \<and> ?hit (j + 2) \<and> j + 2 < nat n_iter"
    then show "?N \<le> j + 3" using row by blast
  next
    assume a: "(\<forall>k. pre_cost C (dist_tag (h ! model)) l tt et tv ev k = Fin c)
      \<and> fl_lt (Fin 0) thres \<and> 4 \<le> n_iter"
    then show "?N = 4" using const by blast
    then show "snd (pre_run C (dist_tag (h ! model)) l tt et ?N) =
      snd (pre_run C (dist_tag (h ! model)) l tt et 4)" by simp
  qed
qed

theorem pretrain_dsm_early_exit_witness:
  "pre_hit (counting_collab []) ''Weibull'' (Fin (1 / 100)) [] [] [] [] (Fin (1 / 10000)) 1
   \<and> pre_hit (counting_collab []) ''Weibull'' (Fin (1 / 100)) [] [] [] [] (Fin (1 / 10000)) 2
   \<and> pre_hit (counting_collab []) ''Weibull'' (Fin (1 / 100)) [] [] [] [] (Fin (1 / 10000)) 3
   \<and> (\<forall>k. pre_cost (counting_collab []) ''Weibull'' (Fin (1 / 100)) [] [] [] [] k = Fin 1)
   \<and> fl_lt (Fin 0) (Fin (1 / 10000))
   \<and> pretrain_iterations (counting_collab []) [counting_model ''Weibull'' ''Adam'' 1 0] 0 [] [] [] []
        10000 (Fin (1 / 100)) (Fin (1 / 10000)) = 4"
  using pretrain_dsm_early_exit [of "counting_collab []" "[counting_model ''Weibull'' ''Adam'' 1 0]" 0
      "Fin (1 / 100)" "[]" "[]" "[]" "[]" "Fin (1 / 10000)" 1 10000 1]
  by (simp add: pre_hit_def pre_cost_def counting_collab_def counting_model_def
      round_binary64_zero)

text \<open>
  The claim as first stated fails: with a validation loss of 1 at every iteration,
  the default \<open>n_iter\<close> and threshold, four losses are recorded, not three.
\<close>

theorem pretrain_dsm_constant_loss_counterexample:
  "costs (pretrain_dsm_frame (counting_collab []) [counting_model ''Weibull'' ''Adam'' 1 0] 0
            [] [] [] [] 10000 (Fin (1 / 100)) (Fin (1 / 10000))) = [Fin 1, Fin 1, Fin 1, Fin 1]
   \<and> pretrain_iterations (counting_collab []) [counting_model ''Weibull'' ''Adam'' 1 0] 0 [] [] [] []
        10000 (Fin (1 / 100)) (Fin (1 / 10000)) \<noteq> 3"
  by (simp add: pretrain_iterations_def pretrain_dsm_frame_def pretrain_loop_numeral
      pretrain_iter_def counting_collab_def counting_model_def torch_optim_def Let_def
      round_binary64_zero)

subsection \<open>What pretraining changes\<close>

lemma py_float_Inr: "py_float t = Inr v \<longleftrightarrow> t = [v]"
  by (auto simp add: py_float_def split: list.splits)

lemma pretrain_dsm_run:
  "pretrain_dsm C h model tt et tv ev n_iter l thres =
     (h @ [snd (pre_run C (dist_tag (h ! model)) l tt et
              (pre_iters (pre_hit C (dist_tag (h ! model)) l tt et tv ev thres) 0 0 (nat n_iter)))],
      length h)"
  using pretrain_dsm_frame_run[of C h model tt et tv ev n_iter l thres]
  by (simp add: pretrain_dsm_def)

lemma train_dsm_setup_Inr:
  assumes "train_dsm_setup C h model t_train e_train t_valid e_valid l = Inr fr0"
    and "model < length h"
  shows "\<exists>pm sh sc.
      pretrain_dsm C h model (reshape_tensor_with_nans t_train) (reshape_tensor_with_nans e_train)
        (reshape_tensor_with_nans t_valid) (reshape_tensor_with_nans e_valid)
        10000 (Fin (1 / 100)) (Fin (1 / 10000)) = (h @ [pm], length h)
      \<and> shape pm = [sh] \<and> scale pm = [sc]
      \<and> fr0 = \<lparr>heap = (h @ [pm])[model := double C ((h ! model)
                     \<lparr>shape := fill (shape (h ! model)) sh, scale := fill (scale (h ! model)) sc\<rparr>)],
               optimizer = torch_optim C Adam model l, oldcost = PInf, patience = 0,
               costs = [], dics = Some [], epoch = 0\<rparr>"
proof -
  let ?pre = "pretrain_dsm C h model (reshape_tensor_with_nans t_train)
        (reshape_tensor_with_nans e_train) (reshape_tensor_with_nans t_valid)
        (reshape_tensor_with_nans e_valid) 10000 (Fin (1 / 100)) (Fin (1 / 10000))"
  obtain pm where pre: "?pre = (h @ [pm], length h)"
    using pretrain_dsm_run by blast
  have nth: "(h @ [pm]) ! length h = pm" "(h @ [pm]) ! model = h ! model"
    using assms(2) by (simp_all add: nth_append)
  have ne: "model \<noteq> length h" using assms(2) by simp
  from assms(1) obtain sh where sh: "py_float (shape pm) = Inr sh"
    unfolding train_dsm_setup_def Let_def pre
    by (cases "py_float (shape pm)") (simp_all add: nth)
  from assms(1) obtain sc where sc: "py_float (scale pm) = Inr sc"
    unfolding train_dsm_setup_def Let_def pre
    using ne by (cases "py_float (scale pm)") (simp_all add: nth sh)
  have "fr0 = \<lparr>heap = (h @ [pm])[model := double C ((h ! model)
                     \<lparr>shape := fill (shape (h ! model)) sh, scale := fill (scale (h ! model)) sc\<rparr>)],
               optimizer = torch_optim C Adam model l, oldcost = PInf, patience = 0,
               costs = [], dics = Some [], epoch = 0\<rparr>"
    using assms ne unfolding train_dsm_setup_def Let_def pre
    by (simp add: nth sh sc)
  with pre sh sc show ?thesis
    by (auto simp add: py_float_Inr)
qed

text \<open>
  C10. \<open>pretrain_dsm\<close> does not change the model it is given: the heap it leaves is
  the heap it found with one new object, the premodel, appended, so every object that
  existed is as it was. The premodel is determined by the collaborators, the data and
  the model's \<open>dist\<close> alone. It is \<open>train_dsm\<close> that afterwards fills the model's
  \<open>shape\<close> and \<open>scale\<close> with the premodel's (single) entries, before \<open>.double()\<close>.
\<close>

theorem pretrain_dsm_leaves_model:
  "pretrain_dsm C h model tt et tv ev n_iter l thres =
     (h @ [snd (pre_run C (dist_tag (h ! model)) l tt et
              (pre_iters (pre_hit C (dist_tag (h ! model)) l tt et tv ev thres) 0 0 (nat n_iter)))],
      length h)
   \<and> (model < length h \<longrightarrow>
        fst (pretrain_dsm C h model tt et tv ev n_iter l thres) ! model = h ! model)
   \<and> (model < length h
        \<and> train_dsm_setup C h model t_train e_train t_valid e_valid l' = Inr fr0 \<longrightarrow>
        (\<exists>h1 sh sc.
           h1 = fst (pretrain_dsm C h model (reshape_tensor_with_nans t_train)
                       (reshape_tensor_with_nans e_train) (reshape_tensor_with_nans t_valid)
                       (reshape_tensor_with_nans e_valid) 10000 (Fin (1 / 100)) (Fin (1 / 10000)))
           \<and> h1 ! model = h ! model
           \<and> shape (h1 ! length h) = [sh] \<and> scale (h1 ! length h) = [sc]
           \<and> heap fr0 = h1[model := double C ((h ! model)
                \<lparr>shape := fill (shape (h ! model)) sh, scale := fill (scale (h ! model)) sc\<rparr>)]))"
proof (intro conjI impI)
  show "pretrain_dsm C h model tt et tv ev n_iter l thres =
     (h @ [snd (pre_run C (dist_tag (h ! model)) l tt et
              (pre_iters (pre_hit C (dist_tag (h ! model)) l tt et tv ev thres) 0 0 (nat n_iter)))],
      length h)"
    by (rule pretrain_dsm_run)
next
  assume "model < length h"
  then show "fst (pretrain_dsm C h model tt et tv ev n_iter l thres) ! model = h ! model"
    by (simp add: pretrain_dsm_run nth_append)
next
  assume a: "model < length h
    \<and> train_dsm_setup C h model t_train e_train t_valid e_valid l' = Inr fr0"
  from train_dsm_setup_Inr[of C h model t_train e_train t_valid e_valid l' fr0] a
  obtain pm sh sc where
    "pretrain_dsm C h model (reshape_tensor_with_nans t_train) (reshape_tensor_with_nans e_train)
        (reshape_tensor_with_nans t_valid) (reshape_tensor_with_nans e_valid)
        10000 (Fin (1 / 100)) (Fin (1 / 10000)) = (h @ [pm], length h)"
    "shape pm = [sh]" "scale pm = [sc]"
    "heap fr0 = (h @ [pm])[model := double C ((h ! model)
                     \<lparr>shape := fill (shape (h ! model)) sh, scale := fill (scale (h ! model)) sc\<rparr>)]"
    by auto
  with a show "\<exists>h1 sh sc.
           h1 = fst (pretrain_dsm C h model (reshape_tensor_with_nans t_train)
                       (reshape_tensor_with_nans e_train) (reshape_tensor_with_nans t_valid)
                       (reshape_tensor_with_nans e_valid) 10000 (Fin (1 / 100)) (Fin (1 / 10000)))
           \<and> h1 ! model = h ! model
           \<and> shape (h1 ! length h) = [sh] \<and> scale (h1 ! length h) = [sc]
           \<and> heap fr0 = h1[model := double C ((h ! model)
                \<lparr>shape := fill (shape (h ! model)) sh, scale := fill (scale (h ! model)) sc\<rparr>)]"
    by (simp add: nth_append)
qed

text \<open>The part of \<open>train_dsm\<close> before its loop, on a model that declares \<open>SGD\<close>.\<close>

lemma counting_train_dsm_setup:
  "train_dsm_setup (counting_collab cs) [counting_model ''Weibull'' ''SGD'' 2 0] 0 tt et tv ev l =
     Inr \<lparr>heap = [counting_model ''Weibull'' ''SGD'' 2 (- 1),
                  (counting_model ''Weibull'' ''Adam'' 1 (- 1))\<lparr>net := 4\<rparr>],
          optimizer = \<lparr>okind = Adam, lr = l, target = 0, ostate = ()\<rparr>,
          oldcost = PInf, patience = 0, costs = [], dics = Some [], epoch = 0\<rparr>"
  by (simp add: train_dsm_setup_def pretrain_dsm_def pretrain_dsm_frame_def
      pretrain_loop_numeral pretrain_iter_def counting_collab_def counting_model_def
      torch_optim_def Let_def py_float_def fill_def numeral_2_eq_2 round_binary64_zero)

theorem pretrain_dsm_leaves_model_witness:
  "(0::nat) < length [counting_model ''Weibull'' ''SGD'' 2 0]
   \<and> train_dsm_setup (counting_collab []) [counting_model ''Weibull'' ''SGD'' 2 0] 0 [] [] [] []
        (Fin (1 / 1000)) =
      Inr \<lparr>heap = [counting_model ''Weibull'' ''SGD'' 2 (- 1),
                   (counting_model ''Weibull'' ''Adam'' 1 (- 1))\<lparr>net := 4\<rparr>],
           optimizer = \<lparr>okind = Adam, lr = Fin (1 / 1000), target = 0, ostate = ()\<rparr>,
           oldcost = PInf, patience = 0, costs = [], dics = Some [], epoch = 0\<rparr>
   \<and> fst (pretrain_dsm (counting_collab []) [counting_model ''Weibull'' ''SGD'' 2 0] 0 [] [] [] []
            10000 (Fin (1 / 100)) (Fin (1 / 10000))) ! 0 = counting_model ''Weibull'' ''SGD'' 2 0"
  using pretrain_dsm_leaves_model [where C = "counting_collab []"
      and h = "[counting_model ''Weibull'' ''SGD'' 2 0]" and model = 0
      and tt = "[]" and et = "[]" and tv = "[]" and ev = "[]" and n_iter = 10000
      and l = "Fin (1 / 100)" and thres = "Fin (1 / 10000)"
      and t_train = "[]" and e_train = "[]" and t_valid = "[]" and e_valid = "[]"
      and l' = "Fin (1 / 1000)"
      and ?fr0.0 = "\<lparr>heap = [counting_model ''Weibull'' ''SGD'' 2 (- 1),
                   (counting_model ''Weibull'' ''Adam'' 1 (- 1))\<lparr>net := 4\<rparr>],
           optimizer = \<lparr>okind = Adam, lr = Fin (1 / 1000), target = 0, ostate = ()\<rparr>,
           oldcost = PInf, patience = 0, costs = [], dics = Some [], epoch = 0\<rparr>"]
    counting_train_dsm_setup [where cs = "[]" and tt = "[]" and et = "[]" and tv = "[]"
      and ev = "[]" and l = "Fin (1 / 1000)"]
  by simp

subsection \<open>The optimizer of the training loop\<close>

text \<open>
  C4. For a model that declares \<open>SGD\<close>, \<open>get_optimizer\<close> gives an optimizer of kind
  \<open>SGD\<close>, but the optimizer that \<open>train_dsm\<close> builds is of kind \<open>Adam\<close> (with the
  caller's learning rate): \<open>train_dsm\<close> does not call \<open>get_optimizer\<close>.
\<close>

theorem train_dsm_optimizer_is_adam:
  "optimizer_tag ([counting_model ''Weibull'' ''SGD'' 2 0] ! 0) = ''SGD''
   \<and> get_optimizer (counting_collab []) [counting_model ''Weibull'' ''SGD'' 2 0] 0 (Fin (1 / 1000)) =
       Inr \<lparr>okind = SGD, lr = Fin (1 / 1000), target = 0, ostate = ()\<rparr>
   \<and> (case train_dsm_setup (counting_collab []) [counting_model ''Weibull'' ''SGD'' 2 0] 0
              [] [] [] [] (Fin (1 / 1000)) of
         Inl e \<Rightarrow> False
       | Inr fr \<Rightarrow> optimizer fr = \<lparr>okind = Adam, lr = Fin (1 / 1000), target = 0, ostate = ()\<rparr>)"
  by (simp add: counting_train_dsm_setup)
     (simp add: get_optimizer_def torch_optim_def counting_model_def counting_collab_def)

subsection \<open>The training loop\<close>

text \<open>
  The loop of \<open>train_dsm\<close> follows \<open>train_run\<close> and returns where \<open>stop_epoch\<close> says.
\<close>

lemma train_batch_with_model:
  "model < length (heap fr) \<Longrightarrow>
   train_batch C model x t e elbo bs j (with_model model fr sm) =
     with_model model fr
       (epoch_batch C (okind (optimizer fr)) (lr (optimizer fr)) x t e elbo bs j sm)"
  by (simp add: train_batch_def with_model_def epoch_batch_def batch_step_def Let_def)

lemma train_batch_fold:
  "model < length (heap fr) \<Longrightarrow>
   fold (train_batch C model x t e elbo bs) js (with_model model fr sm) =
     with_model model fr
       (fold (epoch_batch C (okind (optimizer fr)) (lr (optimizer fr)) x t e elbo bs) js sm)"
  by (induction js arbitrary: sm) (simp_all add: train_batch_with_model)

lemma with_model_same:
  "with_model model fr (ostate (optimizer fr), heap fr ! model) = fr"
  by (simp add: with_model_def)

lemma argmax_scan_bound:
  "best < j \<Longrightarrow> argmax_scan cs j best mp < j + length cs"
  by (induction cs j best mp rule: argmax_scan.induct) auto

lemma np_argmax_snoc:
  "\<exists>m. np_argmax (cs @ [c]) = Inr m \<and> m \<le> length cs"
proof (cases cs)
  case Nil then show ?thesis by simp
next
  case (Cons a as)
  have "argmax_scan (as @ [c]) 1 0 a < 1 + length (as @ [c])"
    by (rule argmax_scan_bound) simp
  then show ?thesis using Cons by simp
qed

lemma train_run_Suc:
  "train_run C l x t e elbo bs nb m0 (Suc k) =
     epoch_run C Adam l x t e elbo bs nb (train_run C l x t e elbo bs nb m0 k)"
  by (simp add: train_run_def)

lemma train_batches_run:
  assumes "model < length (heap fr)"
    and "okind (optimizer fr) = Adam" and "lr (optimizer fr) = l"
    and "ostate (optimizer fr) = fst (train_run C l x t e elbo bs nb m0 k)"
    and "heap fr ! model = snd (train_run C l x t e elbo bs nb m0 k)"
  shows "fold (train_batch C model x t e elbo bs) [0..<nat nb] (fr\<lparr>epoch := i\<rparr>) =
           with_model model (fr\<lparr>epoch := i\<rparr>) (train_run C l x t e elbo bs nb m0 (Suc k))"
proof -
  let ?f = "fr\<lparr>epoch := i\<rparr>"
  have "?f = with_model model ?f (ostate (optimizer ?f), heap ?f ! model)"
    by (simp only: with_model_same)
  then have "fold (train_batch C model x t e elbo bs) [0..<nat nb] ?f =
      fold (train_batch C model x t e elbo bs) [0..<nat nb]
        (with_model model ?f (ostate (optimizer ?f), heap ?f ! model))"
    by simp
  also have "\<dots> = with_model model ?f
      (fold (epoch_batch C (okind (optimizer ?f)) (lr (optimizer ?f)) x t e elbo bs) [0..<nat nb]
         (ostate (optimizer ?f), heap ?f ! model))"
    by (rule train_batch_fold) (simp add: assms)
  also have "\<dots> = with_model model ?f (train_run C l x t e elbo bs nb m0 (Suc k))"
    using assms by (simp add: train_run_Suc epoch_run_def)
  finally show ?thesis .
qed

lemma train_epoch_run:
  assumes "model < length (heap fr)"
    and "okind (optimizer fr) = Adam" and "lr (optimizer fr) = l"
    and "ostate (optimizer fr) = fst (train_run C l x t e elbo bs nb m0 k)"
    and "heap fr ! model = snd (train_run C l x t e elbo bs nb m0 k)"
    and "costs fr = map (epoch_cost C l x t e elbo bs nb xv tv ev m0) [0..<k]"
    and "dics fr = Some (map (epoch_snapshot C l x t e elbo bs nb m0) [0..<k])"
  shows "train_epoch C model x t e xv tv ev elbo bs nb k fr =
     (let sm = train_run C l x t e elbo bs nb m0 (Suc k);
          c = epoch_cost C l x t e elbo bs nb xv tv ev m0 k;
          cs = map (epoch_cost C l x t e elbo bs nb xv tv ev m0) [0..<Suc k];
          ds = map (epoch_snapshot C l x t e elbo bs nb m0) [0..<Suc k];
          fr2 = (with_model model fr sm)\<lparr>costs := cs, dics := Some ds, epoch := k\<rparr>
      in if fl_ge c (oldcost fr) then
           (if patience fr = 2 then
              (case np_argmax cs of
                 Inl e \<Rightarrow> Inl e
               | Inr maxm \<Rightarrow>
                   if maxm < Suc k then
                     Inr (Leave (fr2\<lparr>heap := (heap fr)[model := load_state_dict (snd sm) (ds ! maxm)],
                                   dics := None\<rparr>))
                   else Inl (IndexError ''list index out of range''))
            else Inr (Next (fr2\<lparr>patience := patience fr + 1, oldcost := c\<rparr>)))
         else Inr (Next (fr2\<lparr>patience := 0, oldcost := c\<rparr>)))"
  unfolding train_epoch_def train_batches_run[OF assms(1-5)]
  using assms(1,6,7)
  by (simp add: Let_def with_model_def epoch_cost_def epoch_snapshot_def
      split: sum.split)

lemma stop_epoch_bounds:
  "stop_epoch f k p n = Some K \<Longrightarrow> k \<le> K \<and> K < k + n \<and> f K"
proof (induction n arbitrary: k p)
  case 0
  then show ?case by simp
next
  case (Suc n)
  show ?case
  proof (cases "f k")
    case True
    show ?thesis
    proof (cases "p = 2")
      case True
      with \<open>f k\<close> Suc.prems show ?thesis by simp
    next
      case False
      with \<open>f k\<close> Suc.prems have "stop_epoch f (Suc k) (p + 1) n = Some K" by simp
      from Suc.IH[OF this] show ?thesis by simp
    qed
  next
    case False
    with Suc.prems have "stop_epoch f (Suc k) 0 n = Some K" by simp
    from Suc.IH[OF this] show ?thesis by simp
  qed
qed

lemma train_loop_run:
  assumes "model < length (heap fr)"
    and "okind (optimizer fr) = Adam" and "lr (optimizer fr) = l"
    and "ostate (optimizer fr) = fst (train_run C l x t e elbo bs nb m0 k)"
    and "heap fr ! model = snd (train_run C l x t e elbo bs nb m0 k)"
    and "costs fr = map (epoch_cost C l x t e elbo bs nb xv tv ev m0) [0..<k]"
    and "dics fr = Some (map (epoch_snapshot C l x t e elbo bs nb m0) [0..<k])"
    and "oldcost fr = (if k = 0 then PInf else epoch_cost C l x t e elbo bs nb xv tv ev m0 (k - 1))"
  shows "(stop_epoch (non_improving (epoch_cost C l x t e elbo bs nb xv tv ev m0)) k (patience fr) n = None \<longrightarrow>
           (\<exists>fr'. train_loop C model x t e xv tv ev elbo bs nb [k..<k + n] fr = Inr (Next fr')
               \<and> heap fr' = (heap fr)[model := snd (train_run C l x t e elbo bs nb m0 (k + n))]
               \<and> epoch fr' = (if n = 0 then epoch fr else k + n - 1)))
       \<and> (\<forall>K. stop_epoch (non_improving (epoch_cost C l x t e elbo bs nb xv tv ev m0)) k (patience fr) n = Some K \<longrightarrow>
           (\<exists>fr' maxm. train_loop C model x t e xv tv ev elbo bs nb [k..<k + n] fr = Inr (Leave fr')
               \<and> np_argmax (map (epoch_cost C l x t e elbo bs nb xv tv ev m0) [0..<Suc K]) = Inr maxm
               \<and> maxm \<le> K
               \<and> heap fr' = (heap fr)[model := load_state_dict (snd (train_run C l x t e elbo bs nb m0 (Suc K)))
                                              (epoch_snapshot C l x t e elbo bs nb m0 maxm)]
               \<and> epoch fr' = K \<and> dics fr' = None \<and> patience fr' = 2
               \<and> costs fr' = map (epoch_cost C l x t e elbo bs nb xv tv ev m0) [0..<Suc K]))"
  using assms
proof (induction n arbitrary: k fr)
  case 0
  have "heap fr = (heap fr)[model := snd (train_run C l x t e elbo bs nb m0 k)]"
    using "0.prems"(5) by (metis list_update_id)
  then show ?case by simp
next
  case (Suc n)
  let ?cost = "epoch_cost C l x t e elbo bs nb xv tv ev m0"
  let ?snap = "epoch_snapshot C l x t e elbo bs nb m0"
  let ?f = "non_improving ?cost"
  let ?sm = "train_run C l x t e elbo bs nb m0 (Suc k)"
  let ?cs = "map ?cost [0..<Suc k]"
  let ?ds = "map ?snap [0..<Suc k]"
  let ?fr2 = "(with_model model fr ?sm)\<lparr>costs := ?cs, dics := Some ?ds, epoch := k\<rparr>"
  note step = train_epoch_run[OF Suc.prems(1-7)]
  have ge: "fl_ge (?cost k) (oldcost fr) = ?f k"
    using Suc.prems(8) by (simp add: non_improving_def)
  have upt: "[k..<k + Suc n] = k # [Suc k..<Suc k + n]"
    by (simp add: upt_conv_Cons)
  obtain maxm where maxm: "np_argmax ?cs = Inr maxm" "maxm \<le> k"
    using np_argmax_snoc[of "map ?cost [0..<k]" "?cost k"] by auto
  show ?case
  proof (cases "?f k \<and> patience fr = 2")
    case True
    have "train_epoch C model x t e xv tv ev elbo bs nb k fr =
        Inr (Leave (?fr2\<lparr>heap := (heap fr)[model := load_state_dict (snd ?sm) (?ds ! maxm)],
                        dics := None\<rparr>))"
      using True ge maxm unfolding step Let_def by simp
    moreover have "?ds ! maxm = ?snap maxm"
      using maxm(2) by (simp add: nth_map_upt del: upt_Suc)
    ultimately show ?thesis
      using True maxm unfolding upt
      by (simp add: with_model_def del: upt_Suc)
  next
    case False
    define p' where "p' = (if ?f k then patience fr + 1 else 0)"
    define fr' where "fr' = ?fr2\<lparr>patience := p', oldcost := ?cost k\<rparr>"
    have nxt: "train_epoch C model x t e xv tv ev elbo bs nb k fr = Inr (Next fr')"
      using False ge unfolding step Let_def fr'_def p'_def by auto
    have props: "model < length (heap fr')" "okind (optimizer fr') = Adam" "lr (optimizer fr') = l"
      "ostate (optimizer fr') = fst (train_run C l x t e elbo bs nb m0 (Suc k))"
      "heap fr' ! model = snd (train_run C l x t e elbo bs nb m0 (Suc k))"
      "costs fr' = map ?cost [0..<Suc k]"
      "dics fr' = Some (map ?snap [0..<Suc k])"
      "oldcost fr' = (if Suc k = 0 then PInf else ?cost (Suc k - 1))"
      using Suc.prems(1-3) by (simp_all add: fr'_def with_model_def)
    have more: "heap fr' = (heap fr)[model := snd ?sm]" "patience fr' = p'" "epoch fr' = k"
      by (simp_all add: fr'_def with_model_def)
    have st: "stop_epoch ?f k (patience fr) (Suc n) = stop_epoch ?f (Suc k) p' n"
      using False by (simp add: p'_def)
    from Suc.IH[OF props]
    show ?thesis
      unfolding upt st train_loop.simps nxt more
      by (cases n) (simp_all del: upt_Suc)
  qed
qed

lemma fl_ge_PInf_right: "fl_ge x PInf \<longleftrightarrow> x = PInf"
  by (cases x) simp_all

lemma fl_ge_refl: "\<not> isnan a \<Longrightarrow> fl_ge a a"
  by (cases a) simp_all

lemma fl_ge_total: "\<not> isnan a \<Longrightarrow> \<not> isnan b \<Longrightarrow> \<not> fl_lt a b \<Longrightarrow> fl_ge a b"
  by (cases a; cases b) simp_all

lemma fl_lt_ge_trans: "fl_lt a b \<Longrightarrow> fl_ge a v \<Longrightarrow> fl_ge b v"
  by (cases a; cases b; cases v) simp_all

lemma argmax_scan_max:
  assumes "\<not> isnan mp" and "\<forall>c\<in>set cs. \<not> isnan c"
    and "best < length pre" and "pre ! best = mp" and "\<forall>v\<in>set pre. fl_ge mp v"
  shows "\<forall>v\<in>set (pre @ cs). fl_ge ((pre @ cs) ! argmax_scan cs (length pre) best mp) v"
  using assms
proof (induction cs arbitrary: pre best mp)
  case Nil
  then show ?case by simp
next
  case (Cons c cs)
  have c: "\<not> isnan c" using Cons.prems(2) by simp
  have cs: "\<forall>c\<in>set cs. \<not> isnan c" using Cons.prems(2) by simp
  show ?case
  proof (cases "fl_lt mp c")
    case True
    have "\<forall>v\<in>set ((pre @ [c]) @ cs).
        fl_ge (((pre @ [c]) @ cs) ! argmax_scan cs (length (pre @ [c])) (length pre) c) v"
    proof (rule Cons.IH[OF c cs])
      show "length pre < length (pre @ [c])" by simp
      show "(pre @ [c]) ! length pre = c" by simp
      show "\<forall>v\<in>set (pre @ [c]). fl_ge c v"
        using Cons.prems(5) True c by (auto intro: fl_lt_ge_trans fl_ge_refl)
    qed
    then show ?thesis using True Cons.prems(1) c by simp
  next
    case False
    have "\<forall>v\<in>set ((pre @ [c]) @ cs).
        fl_ge (((pre @ [c]) @ cs) ! argmax_scan cs (length (pre @ [c])) best mp) v"
    proof (rule Cons.IH[OF Cons.prems(1) cs])
      show "best < length (pre @ [c])" using Cons.prems(3) by simp
      show "(pre @ [c]) ! best = mp" using Cons.prems(3,4) by (simp add: nth_append)
      show "\<forall>v\<in>set (pre @ [c]). fl_ge mp v"
        using Cons.prems(1,5) False c by (auto intro: fl_ge_total)
    qed
    then show ?thesis using False Cons.prems(1) c by simp
  qed
qed

lemma argmax_scan_nan:
  assumes "best < length pre" and "pre ! best = mp"
    and "isnan mp \<or> (\<exists>c\<in>set cs. isnan c)"
  shows "isnan ((pre @ cs) ! argmax_scan cs (length pre) best mp)"
  using assms
proof (induction cs arbitrary: pre best mp)
  case Nil
  then show ?case by (simp add: nth_append)
next
  case (Cons c cs)
  show ?case
  proof (cases "isnan mp")
    case True
    then show ?thesis using Cons.prems(1,2) by (simp add: nth_append)
  next
    case False
    show ?thesis
    proof (cases "isnan c \<or> fl_lt mp c")
      case True
      have "isnan (((pre @ [c]) @ cs) ! argmax_scan cs (length (pre @ [c])) (length pre) c)"
      proof (rule Cons.IH)
        show "length pre < length (pre @ [c])" by simp
        show "(pre @ [c]) ! length pre = c" by simp
        show "isnan c \<or> (\<exists>c\<in>set cs. isnan c)" using Cons.prems(3) False by auto
      qed
      then show ?thesis using True False by simp
    next
      case no: False
      have "isnan (((pre @ [c]) @ cs) ! argmax_scan cs (length (pre @ [c])) best mp)"
      proof (rule Cons.IH)
        show "best < length (pre @ [c])" using Cons.prems(1) by simp
        show "(pre @ [c]) ! best = mp" using Cons.prems(1,2) by (simp add: nth_append)
        show "isnan mp \<or> (\<exists>c\<in>set cs. isnan c)" using Cons.prems(3) no by auto
      qed
      then show ?thesis using no False by simp
    qed
  qed
qed

lemma np_argmax_greatest:
  assumes "np_argmax cs = Inr m"
  shows "((\<forall>c\<in>set cs. \<not> isnan c) \<longrightarrow> (\<forall>c\<in>set cs. fl_ge (cs ! m) c))
       \<and> ((\<exists>c\<in>set cs. isnan c) \<longrightarrow> isnan (cs ! m))"
proof (cases cs)
  case Nil
  with assms show ?thesis by simp
next
  case (Cons a as)
  with assms have m: "m = argmax_scan as (length [a]) 0 a" by simp
  have 1: "\<forall>c\<in>set ([a] @ as). fl_ge (([a] @ as) ! m) c" if "\<forall>c\<in>set cs. \<not> isnan c"
    unfolding m using that Cons by (intro argmax_scan_max) (auto intro: fl_ge_refl)
  have 2: "isnan (([a] @ as) ! m)" if "\<exists>c\<in>set cs. isnan c"
    unfolding m using that Cons by (intro argmax_scan_nan) auto
  from 1 2 show ?thesis unfolding Cons by simp
qed

lemma stop_epoch_fourth:
  assumes "\<not> f 0" "f 1" "f 2" "f 3" "4 \<le> n"
  shows "stop_epoch f 0 0 n = Some 3"
proof -
  from assms(5) have "n = Suc (Suc (Suc (Suc (n - 4))))" by arith
  then obtain m where n: "n = Suc (Suc (Suc (Suc m)))" ..
  have h: "f (Suc 0)" "f (Suc (Suc 0))" "f (Suc (Suc (Suc 0)))"
    using assms(2-4) by (simp_all add: numeral_2_eq_2 numeral_3_eq_3)
  show ?thesis
    unfolding n using assms(1) h by (simp add: numeral_3_eq_3)
qed

text \<open>The loop of \<open>train_dsm\<close>, from the frame that the part before it leaves.\<close>

lemma train_dsm_loop_run:
  assumes "model < length h"
    and "train_dsm_setup C h model t_train e_train t_valid e_valid l = Inr fr0"
  shows "(stop_epoch (non_improving (epoch_cost C l x t e elbo bs nb xv tv ev (heap fr0 ! model))) 0 0 n = None \<longrightarrow>
           (\<exists>fr'. train_loop C model x t e xv tv ev elbo bs nb [0..<n] fr0 = Inr (Next fr')))
       \<and> (\<forall>K. stop_epoch (non_improving (epoch_cost C l x t e elbo bs nb xv tv ev (heap fr0 ! model))) 0 0 n = Some K \<longrightarrow>
           (\<exists>fr' maxm. train_loop C model x t e xv tv ev elbo bs nb [0..<n] fr0 = Inr (Leave fr')
               \<and> np_argmax (costs fr') = Inr maxm
               \<and> maxm \<le> K
               \<and> heap fr' = (heap fr0)[model := load_state_dict (snd (train_run C l x t e elbo bs nb (heap fr0 ! model) (Suc K)))
                                              (epoch_snapshot C l x t e elbo bs nb (heap fr0 ! model) maxm)]
               \<and> epoch fr' = K \<and> dics fr' = None \<and> patience fr' = 2
               \<and> costs fr' = map (epoch_cost C l x t e elbo bs nb xv tv ev (heap fr0 ! model)) [0..<Suc K]))"
proof -
  from train_dsm_setup_Inr[OF assms(2,1)] obtain hp where
    fr0: "fr0 = \<lparr>heap = hp, optimizer = torch_optim C Adam model l, oldcost = PInf, patience = 0,
               costs = [], dics = Some [], epoch = 0\<rparr>" and len: "length hp = Suc (length h)"
    by auto
  have "(stop_epoch (non_improving (epoch_cost C l x t e elbo bs nb xv tv ev (heap fr0 ! model))) 0 (patience fr0) n = None \<longrightarrow>
           (\<exists>fr'. train_loop C model x t e xv tv ev elbo bs nb [0..<0 + n] fr0 = Inr (Next fr')
               \<and> heap fr' = (heap fr0)[model := snd (train_run C l x t e elbo bs nb (heap fr0 ! model) (0 + n))]
               \<and> epoch fr' = (if n = 0 then epoch fr0 else 0 + n - 1)))
       \<and> (\<forall>K. stop_epoch (non_improving (epoch_cost C l x t e elbo bs nb xv tv ev (heap fr0 ! model))) 0 (patience fr0) n = Some K \<longrightarrow>
           (\<exists>fr' maxm. train_loop C model x t e xv tv ev elbo bs nb [0..<0 + n] fr0 = Inr (Leave fr')
               \<and> np_argmax (map (epoch_cost C l x t e elbo bs nb xv tv ev (heap fr0 ! model)) [0..<Suc K]) = Inr maxm
               \<and> maxm \<le> K
               \<and> heap fr' = (heap fr0)[model := load_state_dict (snd (train_run C l x t e elbo bs nb (heap fr0 ! model) (Suc K)))
                                              (epoch_snapshot C l x t e elbo bs nb (heap fr0 ! model) maxm)]
               \<and> epoch fr' = K \<and> dics fr' = None \<and> patience fr' = 2
               \<and> costs fr' = map (epoch_cost C l x t e elbo bs nb xv tv ev (heap fr0 ! model)) [0..<Suc K]))"
    by (rule train_loop_run)
       (use assms(1) len in \<open>simp_all add: fr0 torch_optim_def train_run_def\<close>)
  then show ?thesis
    by (simp add: fr0 del: upt_Suc) metis
qed

text \<open>
  C1 (as amended). In \<open>train_dsm\<close>, for a run whose first validation cost is not
  \<open>+inf\<close> and whose costs do not improve from epoch 1 on (each is \<open>>=\<close> the one before,
  as in 1.0, 1.2, 1.3, 1.5), with \<open>n_iter\<close> at least 4, training returns early with
  epoch index 3, the fourth epoch: epoch 0 is compared with the initial \<open>+inf\<close>, and
  the return comes at the third epoch that does not improve.
\<close>

theorem train_dsm_early_stop_epoch:
  assumes "model < length h"
    and "train_dsm_setup C h model t_train e_train t_valid e_valid l = Inr fr0"
    and "int_quotient (length x_train) bs = Inr q"
    and "4 \<le> n_iter"
    and "epoch_cost C l x_train t_train e_train elbo bs (q + 1) x_valid
           (reshape_tensor_with_nans t_valid) (reshape_tensor_with_nans e_valid)
           (heap fr0 ! model) 0 \<noteq> PInf"
    and "fl_ge (epoch_cost C l x_train t_train e_train elbo bs (q + 1) x_valid
                  (reshape_tensor_with_nans t_valid) (reshape_tensor_with_nans e_valid)
                  (heap fr0 ! model) 1)
               (epoch_cost C l x_train t_train e_train elbo bs (q + 1) x_valid
                  (reshape_tensor_with_nans t_valid) (reshape_tensor_with_nans e_valid)
                  (heap fr0 ! model) 0)"
    and "fl_ge (epoch_cost C l x_train t_train e_train elbo bs (q + 1) x_valid
                  (reshape_tensor_with_nans t_valid) (reshape_tensor_with_nans e_valid)
                  (heap fr0 ! model) 2)
               (epoch_cost C l x_train t_train e_train elbo bs (q + 1) x_valid
                  (reshape_tensor_with_nans t_valid) (reshape_tensor_with_nans e_valid)
                  (heap fr0 ! model) 1)"
    and "fl_ge (epoch_cost C l x_train t_train e_train elbo bs (q + 1) x_valid
                  (reshape_tensor_with_nans t_valid) (reshape_tensor_with_nans e_valid)
                  (heap fr0 ! model) 3)
               (epoch_cost C l x_train t_train e_train elbo bs (q + 1) x_valid
                  (reshape_tensor_with_nans t_valid) (reshape_tensor_with_nans e_valid)
                  (heap fr0 ! model) 2)"
  shows "\<exists>fr. train_dsm_ctl C h model x_train t_train e_train x_valid t_valid e_valid n_iter l
                 elbo bs = Inr (Leave fr)
            \<and> epoch fr = 3
            \<and> train_dsm C h model x_train t_train e_train x_valid t_valid e_valid n_iter l
                 elbo bs = Inr (heap fr, model, 3)"
proof -
  let ?cost = "epoch_cost C l x_train t_train e_train elbo bs (q + 1) x_valid
           (reshape_tensor_with_nans t_valid) (reshape_tensor_with_nans e_valid)
           (heap fr0 ! model)"
  have "stop_epoch (non_improving ?cost) 0 0 (nat n_iter) = Some 3"
  proof (rule stop_epoch_fourth)
    show "\<not> non_improving ?cost 0"
      using assms(5) by (simp add: non_improving_def fl_ge_PInf_right)
    show "non_improving ?cost 1" "non_improving ?cost 2" "non_improving ?cost 3"
      using assms(6-8) by (simp_all add: non_improving_def)
    show "4 \<le> nat n_iter" using assms(4) by simp
  qed
  with train_dsm_loop_run[OF assms(1,2), where x = x_train and t = t_train and e = e_train
      and elbo = elbo and bs = bs and nb = "q + 1" and xv = x_valid
      and tv = "reshape_tensor_with_nans t_valid" and ev = "reshape_tensor_with_nans e_valid"
      and n = "nat n_iter"]
  obtain fr where
    "train_loop C model x_train t_train e_train x_valid (reshape_tensor_with_nans t_valid)
       (reshape_tensor_with_nans e_valid) elbo bs (q + 1) [0..<nat n_iter] fr0 = Inr (Leave fr)"
    "epoch fr = 3"
    by blast
  then show ?thesis
    by (simp add: train_dsm_def train_dsm_ctl_def assms(2,3))
qed

text \<open>
  C2. When \<open>train_dsm\<close> returns early, \<open>patience\<close> is 2, the recorded costs are those
  of all epochs so far, and the model's parameters are loaded from the snapshot of
  the epoch \<open>np.argmax(costs)\<close>: the cost of that epoch is \<open>>=\<close> every recorded cost
  (it is not-a-number if some recorded cost is). The snapshots are unbound, and the
  reference to the model is returned with the index of the current epoch.
\<close>

theorem train_dsm_early_stop_restores:
  assumes "model < length h"
    and "train_dsm_setup C h model t_train e_train t_valid e_valid l = Inr fr0"
    and "int_quotient (length x_train) bs = Inr q"
    and "train_dsm_ctl C h model x_train t_train e_train x_valid t_valid e_valid n_iter l
           elbo bs = Inr (Leave fr)"
  shows "\<exists>maxm. np_argmax (costs fr) = Inr maxm \<and> maxm \<le> epoch fr
     \<and> costs fr =
         map (epoch_cost C l x_train t_train e_train elbo bs (q + 1) x_valid
                (reshape_tensor_with_nans t_valid) (reshape_tensor_with_nans e_valid)
                (heap fr0 ! model)) [0..<Suc (epoch fr)]
     \<and> ((\<forall>c\<in>set (costs fr). \<not> isnan c) \<longrightarrow> (\<forall>c\<in>set (costs fr). fl_ge (costs fr ! maxm) c))
     \<and> ((\<exists>c\<in>set (costs fr). isnan c) \<longrightarrow> isnan (costs fr ! maxm))
     \<and> heap fr =
         (heap fr0)[model := load_state_dict
            (snd (train_run C l x_train t_train e_train elbo bs (q + 1) (heap fr0 ! model)
                    (Suc (epoch fr))))
            (epoch_snapshot C l x_train t_train e_train elbo bs (q + 1) (heap fr0 ! model) maxm)]
     \<and> dics fr = None \<and> patience fr = 2
     \<and> train_dsm C h model x_train t_train e_train x_valid t_valid e_valid n_iter l elbo bs =
         Inr (heap fr, model, epoch fr)"
proof -
  let ?cost = "epoch_cost C l x_train t_train e_train elbo bs (q + 1) x_valid
           (reshape_tensor_with_nans t_valid) (reshape_tensor_with_nans e_valid)
           (heap fr0 ! model)"
  have loop: "train_loop C model x_train t_train e_train x_valid (reshape_tensor_with_nans t_valid)
       (reshape_tensor_with_nans e_valid) elbo bs (q + 1) [0..<nat n_iter] fr0 = Inr (Leave fr)"
    using assms(4) by (simp add: train_dsm_ctl_def assms(2,3))
  note run = train_dsm_loop_run[OF assms(1,2), where x = x_train and t = t_train and e = e_train
      and elbo = elbo and bs = bs and nb = "q + 1" and xv = x_valid
      and tv = "reshape_tensor_with_nans t_valid" and ev = "reshape_tensor_with_nans e_valid"
      and n = "nat n_iter"]
  obtain K where K: "stop_epoch (non_improving ?cost) 0 0 (nat n_iter) = Some K"
    using run loop by (cases "stop_epoch (non_improving ?cost) 0 0 (nat n_iter)") auto
  with run loop obtain maxm where m: "np_argmax (costs fr) = Inr maxm" "maxm \<le> K"
    "heap fr = (heap fr0)[model := load_state_dict
        (snd (train_run C l x_train t_train e_train elbo bs (q + 1) (heap fr0 ! model) (Suc K)))
        (epoch_snapshot C l x_train t_train e_train elbo bs (q + 1) (heap fr0 ! model) maxm)]"
    "epoch fr = K" "dics fr = None" "patience fr = 2" "costs fr = map ?cost [0..<Suc K]"
    by auto
  have ret: "train_dsm C h model x_train t_train e_train x_valid t_valid e_valid n_iter l elbo bs =
         Inr (heap fr, model, epoch fr)"
    by (simp add: train_dsm_def assms(4))
  from np_argmax_greatest[OF m(1)] m ret show ?thesis
    by blast
qed

lemma counting_run_rising:
  "train_dsm_ctl (counting_collab [Fin 1, Fin (12 / 10), Fin (13 / 10), Fin (15 / 10)])
     [counting_model ''Weibull'' ''SGD'' 2 0] 0 [] [] [] [] [] [] 10 (Fin (1 / 1000)) True 100 =
   Inr (Leave
     \<lparr>heap = [(counting_model ''Weibull'' ''SGD'' 2 (- 1))\<lparr>net := 4\<rparr>,
              (counting_model ''Weibull'' ''Adam'' 1 (- 1))\<lparr>net := 4\<rparr>],
      optimizer = \<lparr>okind = Adam, lr = Fin (1 / 1000), target = 0, ostate = ()\<rparr>,
      oldcost = Fin (13 / 10), patience = 2,
      costs = [Fin 1, Fin (12 / 10), Fin (13 / 10), Fin (15 / 10)], dics = None, epoch = 3\<rparr>)"
  apply (simp only: train_dsm_ctl_def counting_train_dsm_setup)
  apply (simp add: int_quotient_def train_epoch_def train_batch_def Let_def py_slice_def
      counting_collab_def counting_model_def reshape_tensor_with_nans_def state_dict_def
      load_state_dict_def upt_conv_Cons)
  done

lemma counting_run_falling:
  "train_dsm_ctl (counting_collab [Fin 5, Fin 1, Fin 1, Fin 1, Fin 1])
     [counting_model ''Weibull'' ''SGD'' 2 0] 0 [] [] [] [] [] [] 10 (Fin (1 / 1000)) True 100 =
   Inr (Leave
     \<lparr>heap = [(counting_model ''Weibull'' ''SGD'' 2 (- 1))\<lparr>net := 1\<rparr>,
              (counting_model ''Weibull'' ''Adam'' 1 (- 1))\<lparr>net := 4\<rparr>],
      optimizer = \<lparr>okind = Adam, lr = Fin (1 / 1000), target = 0, ostate = ()\<rparr>,
      oldcost = Fin 1, patience = 2,
      costs = [Fin 5, Fin 1, Fin 1, Fin 1, Fin 1], dics = None, epoch = 4\<rparr>)"
  apply (simp only: train_dsm_ctl_def counting_train_dsm_setup)
  apply (simp add: int_quotient_def train_epoch_def train_batch_def Let_def py_slice_def
      counting_collab_def counting_model_def reshape_tensor_with_nans_def state_dict_def
      load_state_dict_def upt_conv_Cons)
  done

lemma counting_epoch_cost:
  "epoch_cost (counting_collab cs) l [] [] [] elbo 100 1 [] [] [] m0 k =
     (if net m0 + k < length cs then cs ! (net m0 + k) else Fin 0)"
proof -
  have "train_run (counting_collab cs) l [] [] [] elbo 100 1 m0 n = ((), m0\<lparr>net := net m0 + n\<rparr>)" for n
    by (induction n)
       (simp_all add: train_run_def epoch_run_def epoch_batch_def batch_step_def
          counting_collab_def)
  then show ?thesis
    by (simp add: epoch_cost_def) (simp add: counting_collab_def)
qed

theorem train_dsm_early_stop_epoch_witness:
  "(0::nat) < length [counting_model ''Weibull'' ''SGD'' 2 0]
   \<and> int_quotient (length ([] :: unit list)) 100 = Inr 0
   \<and> (4::int) \<le> 10
   \<and> (\<exists>fr. train_dsm_ctl (counting_collab [Fin 1, Fin (12 / 10), Fin (13 / 10), Fin (15 / 10)])
              [counting_model ''Weibull'' ''SGD'' 2 0] 0 [] [] [] [] [] [] 10 (Fin (1 / 1000))
              True 100 = Inr (Leave fr)
          \<and> epoch fr = 3
          \<and> train_dsm (counting_collab [Fin 1, Fin (12 / 10), Fin (13 / 10), Fin (15 / 10)])
              [counting_model ''Weibull'' ''SGD'' 2 0] 0 [] [] [] [] [] [] 10 (Fin (1 / 1000))
              True 100 = Inr (heap fr, 0, 3))"
proof -
  let ?C = "counting_collab [Fin 1, Fin (12 / 10), Fin (13 / 10), Fin (15 / 10)]"
  let ?fr0 = "\<lparr>heap = [counting_model ''Weibull'' ''SGD'' 2 (- 1),
                  (counting_model ''Weibull'' ''Adam'' 1 (- 1))\<lparr>net := 4\<rparr>],
          optimizer = \<lparr>okind = Adam, lr = Fin (1 / 1000), target = 0, ostate = ()\<rparr>,
          oldcost = PInf, patience = 0, costs = [], dics = Some [], epoch = 0\<rparr>"
  have len: "(0::nat) < length [counting_model ''Weibull'' ''SGD'' 2 0]" by simp
  have q: "int_quotient (length ([] :: unit list)) 100 = Inr 0" by (simp add: int_quotient_def)
  have n: "(4::int) \<le> 10" by simp
  have c0: "epoch_cost ?C (Fin (1 / 1000)) [] [] [] True 100 (0 + 1) []
      (reshape_tensor_with_nans []) (reshape_tensor_with_nans []) (heap ?fr0 ! 0) 0 \<noteq> PInf"
    by (simp add: reshape_tensor_with_nans_def counting_epoch_cost counting_model_def)
  have c1: "fl_ge (epoch_cost ?C (Fin (1 / 1000)) [] [] [] True 100 (0 + 1) []
      (reshape_tensor_with_nans []) (reshape_tensor_with_nans []) (heap ?fr0 ! 0) 1)
     (epoch_cost ?C (Fin (1 / 1000)) [] [] [] True 100 (0 + 1) []
      (reshape_tensor_with_nans []) (reshape_tensor_with_nans []) (heap ?fr0 ! 0) 0)"
    by (simp add: reshape_tensor_with_nans_def counting_epoch_cost counting_model_def)
  have c2: "fl_ge (epoch_cost ?C (Fin (1 / 1000)) [] [] [] True 100 (0 + 1) []
      (reshape_tensor_with_nans []) (reshape_tensor_with_nans []) (heap ?fr0 ! 0) 2)
     (epoch_cost ?C (Fin (1 / 1000)) [] [] [] True 100 (0 + 1) []
      (reshape_tensor_with_nans []) (reshape_tensor_with_nans []) (heap ?fr0 ! 0) 1)"
    by (simp add: reshape_tensor_with_nans_def counting_epoch_cost counting_model_def)
  have c3: "fl_ge (epoch_cost ?C (Fin (1 / 1000)) [] [] [] True 100 (0 + 1) []
      (reshape_tensor_with_nans []) (reshape_tensor_with_nans []) (heap ?fr0 ! 0) 3)
     (epoch_cost ?C (Fin (1 / 1000)) [] [] [] True 100 (0 + 1) []
      (reshape_tensor_with_nans []) (reshape_tensor_with_nans []) (heap ?fr0 ! 0) 2)"
    by (simp add: reshape_tensor_with_nans_def counting_epoch_cost counting_model_def)
  from train_dsm_early_stop_epoch [OF len counting_train_dsm_setup q n c0 c1 c2 c3] len q n
  show ?thesis by simp
qed

text \<open>
  The claim as first stated fails: with validation costs 1.0, 1.2, 1.3, 1.5 the run
  returns early with epoch index 3, not 2.
\<close>

theorem train_dsm_rising_costs_counterexample:
  "(case train_dsm_ctl (counting_collab [Fin 1, Fin (12 / 10), Fin (13 / 10), Fin (15 / 10)])
           [counting_model ''Weibull'' ''SGD'' 2 0] 0 [] [] [] [] [] [] 10 (Fin (1 / 1000))
           True 100 of
      Inl e \<Rightarrow> False
    | Inr (Next fr) \<Rightarrow> False
    | Inr (Leave fr) \<Rightarrow>
        costs fr = [Fin 1, Fin (12 / 10), Fin (13 / 10), Fin (15 / 10)]
        \<and> epoch fr = 3 \<and> epoch fr \<noteq> 2)"
  unfolding counting_run_rising by simp

theorem train_dsm_early_stop_restores_witness:
  "(0::nat) < length [counting_model ''Weibull'' ''SGD'' 2 0]
   \<and> int_quotient (length ([] :: unit list)) 100 = Inr 0
   \<and> train_dsm_ctl (counting_collab [Fin 5, Fin 1, Fin 1, Fin 1, Fin 1])
        [counting_model ''Weibull'' ''SGD'' 2 0] 0 [] [] [] [] [] [] 10 (Fin (1 / 1000)) True 100 =
      Inr (Leave
        \<lparr>heap = [(counting_model ''Weibull'' ''SGD'' 2 (- 1))\<lparr>net := 1\<rparr>,
                 (counting_model ''Weibull'' ''Adam'' 1 (- 1))\<lparr>net := 4\<rparr>],
         optimizer = \<lparr>okind = Adam, lr = Fin (1 / 1000), target = 0, ostate = ()\<rparr>,
         oldcost = Fin 1, patience = 2,
         costs = [Fin 5, Fin 1, Fin 1, Fin 1, Fin 1], dics = None, epoch = 4\<rparr>)
   \<and> np_argmax [Fin 5, Fin 1, Fin 1, Fin 1, Fin 1] = Inr 0
   \<and> train_dsm (counting_collab [Fin 5, Fin 1, Fin 1, Fin 1, Fin 1])
        [counting_model ''Weibull'' ''SGD'' 2 0] 0 [] [] [] [] [] [] 10 (Fin (1 / 1000)) True 100 =
      Inr ([(counting_model ''Weibull'' ''SGD'' 2 (- 1))\<lparr>net := 1\<rparr>,
            (counting_model ''Weibull'' ''Adam'' 1 (- 1))\<lparr>net := 4\<rparr>], 0, 4)"
proof -
  have len: "(0::nat) < length [counting_model ''Weibull'' ''SGD'' 2 0]" by simp
  have q: "int_quotient (length ([] :: unit list)) 100 = Inr 0" by (simp add: int_quotient_def)
  from train_dsm_early_stop_restores [OF len counting_train_dsm_setup q counting_run_falling]
    len q counting_run_falling
  show ?thesis by auto
qed

subsection \<open>Batches\<close>











end
